theory Spec2Isabelle
  imports Complex_Main "HOL-Library.Sublist"
begin

section \<open>Weather widget: multi-source fetch with a time-bounded cache\<close>

text \<open>
  A shallow embedding of \<open>src/Weather/script.js\<close>: the three provider adapters
  (\<open>fetchFromWeatherAPI\<close>, \<open>fetchFromOpenMeteo\<close>, \<open>fetchFromWttr\<close>), the
  normalisation helpers (\<open>getWeatherDescription\<close>, \<open>getWeatherIconFromCode\<close>,
  \<open>getWeatherIconFromDescription\<close>) and the orchestrator \<open>fetchWeatherData\<close> with
  its cache \<open>WEATHER_CACHE\<close>. The DOM code of the script is not modelled.
\<close>

subsection \<open>JavaScript strings and numbers\<close>

text \<open>
  A JavaScript string is the list of its UTF-16 code units, each a number. The string
  literals of the script are ASCII; \<open>js\<close> turns such a literal into its code units.
\<close>

type_synonym jsstring = "nat list"

definition js :: "string \<Rightarrow> jsstring" where
  "js s = map of_char s"

text \<open>\<open>s.includes(pat)\<close>: \<open>pat\<close> occurs in \<open>s\<close> as a contiguous run of code units.\<close>

fun str_includes :: "jsstring \<Rightarrow> jsstring \<Rightarrow> bool" where
  "str_includes [] pat = (pat = [])"
| "str_includes (c # cs) pat = (prefix pat (c # cs) \<or> str_includes cs pat)"

text \<open>
  A JavaScript number is a double: \<open>NaN\<close>, an infinity, or a finite value, which is
  kept as the rational it denotes; equality and the order relations are exact on these.
\<close>

datatype jsnum = NaN | Fin rat | PosInfinity | NegInfinity

text \<open>
  \<open>Math.round\<close> on a number: the nearest integer, a tie going up; \<open>NaN\<close> and the
  infinities stay.
\<close>

fun Math_round :: "jsnum \<Rightarrow> jsnum" where
  "Math_round (Fin q) = Fin (of_int \<lfloor>q + 1 / 2\<rfloor>)"
| "Math_round n = n"

text \<open>The comparisons \<open>n <= k\<close> and \<open>n >= k\<close> of a number with a finite constant.\<close>

fun js_le :: "jsnum \<Rightarrow> rat \<Rightarrow> bool" where
  "js_le (Fin q) k = (q \<le> k)"
| "js_le NegInfinity k = True"
| "js_le n k = False"

fun js_ge :: "jsnum \<Rightarrow> rat \<Rightarrow> bool" where
  "js_ge (Fin q) k = (q \<ge> k)"
| "js_ge PosInfinity k = True"
| "js_ge n k = False"

subsection \<open>Values, errors and the functions of the JavaScript engine\<close>

text \<open>
  The values the script handles: what \<open>JSON.parse\<close> yields (\<open>null\<close>, booleans,
  numbers, strings, arrays, objects) and \<open>undefined\<close>, the result of reading a property
  that is not there. An object is the list of its own properties, the first pair for a
  name counting.
\<close>

datatype jsval =
    Undefined
  | Null
  | Bool bool
  | Number jsnum
  | Str jsstring
  | Arr "jsval list"
  | Obj "(jsstring \<times> jsval) list"

datatype error = Error string | TypeError | SyntaxError | URIError | AggregateError

text \<open>
  The script calls functions that belong to the JavaScript engine, not to the
  repository: \<open>String.prototype.toLowerCase\<close> and \<open>trim\<close> (Unicode case mapping and
  white space), \<open>parseInt\<close> on a string, \<open>encodeURIComponent\<close> (which throws a
  \<open>URIError\<close> on a lone surrogate), the conversions between numbers and strings, and
  the names of the properties every object inherits from \<open>Object.prototype\<close>. The model
  takes them as a parameter, so that what is proved holds of every engine.
\<close>

record engine =
  toLowerCase :: "jsstring \<Rightarrow> jsstring"
  trim :: "jsstring \<Rightarrow> jsstring"
  parseInt :: "jsstring \<Rightarrow> jsnum"
  encodeURIComponent :: "jsstring \<Rightarrow> error + jsstring"
  NumberToString :: "jsnum \<Rightarrow> jsstring"
  StringToNumber :: "jsstring \<Rightarrow> jsnum"
  ObjectPrototype :: "jsstring \<Rightarrow> bool"

text \<open>Sequencing of steps that may throw: the first error ends the computation.\<close>

definition bind_ok :: "error + 'a \<Rightarrow> ('a \<Rightarrow> error + 'b) \<Rightarrow> error + 'b" where
  "bind_ok m k = (case m of Inl e \<Rightarrow> Inl e | Inr x \<Rightarrow> k x)"

text \<open>
  \<open>ToString\<close>, as a template literal, \<open>parseInt\<close> and a property key apply it.
  \<open>undefined\<close>, \<open>null\<close> and booleans give their names; an array gives its elements
  joined by commas, \<open>undefined\<close> and \<open>null\<close> elements counting as empty; an object gives
  \<open>[object Object]\<close>, unless it has an own property \<open>toString\<close>: that value is not a
  function, the inherited \<open>valueOf\<close> returns the object itself, and the conversion throws
  a \<open>TypeError\<close>.
\<close>

fun join :: "(error + jsstring) list \<Rightarrow> error + jsstring" where
  "join [] = Inr []"
| "join [x] = x"
| "join (x # y # ys) =
     (case x of
        Inl e \<Rightarrow> Inl e
      | Inr s \<Rightarrow> (case join (y # ys) of Inl e \<Rightarrow> Inl e | Inr t \<Rightarrow> Inr (s @ js '','' @ t)))"

fun ToString :: "engine \<Rightarrow> jsval \<Rightarrow> error + jsstring" where
  "ToString rt Undefined = Inr (js ''undefined'')"
| "ToString rt Null = Inr (js ''null'')"
| "ToString rt (Bool b) = Inr (if b then js ''true'' else js ''false'')"
| "ToString rt (Number n) = Inr (NumberToString rt n)"
| "ToString rt (Str s) = Inr s"
| "ToString rt (Arr xs) =
     join (map (\<lambda>x. if x = Undefined \<or> x = Null then Inr [] else ToString rt x) xs)"
| "ToString rt (Obj kv) =
     (if map_of kv (js ''toString'') = None then Inr (js ''[object Object]'')
      else Inl TypeError)"

text \<open>
  \<open>ToNumber\<close>, as \<open>Math.round\<close> and the order relations apply it: an array or an
  object is first converted to a string.
\<close>

definition ToNumber :: "engine \<Rightarrow> jsval \<Rightarrow> error + jsnum" where
  "ToNumber rt v =
     (case v of
        Undefined \<Rightarrow> Inr NaN
      | Null \<Rightarrow> Inr (Fin 0)
      | Bool b \<Rightarrow> Inr (if b then Fin 1 else Fin 0)
      | Number n \<Rightarrow> Inr n
      | Str s \<Rightarrow> Inr (StringToNumber rt s)
      | Arr xs \<Rightarrow> bind_ok (ToString rt v) (\<lambda>s. Inr (StringToNumber rt s))
      | Obj kv \<Rightarrow> bind_ok (ToString rt v) (\<lambda>s. Inr (StringToNumber rt s)))"

text \<open>A value in a condition: \<open>!v\<close> holds of the values that are not \<open>truthy\<close>.\<close>

definition truthy :: "jsval \<Rightarrow> bool" where
  "truthy v =
     (case v of
        Undefined \<Rightarrow> False
      | Null \<Rightarrow> False
      | Bool b \<Rightarrow> b
      | Number n \<Rightarrow> n \<noteq> NaN \<and> n \<noteq> Fin 0
      | Str s \<Rightarrow> s \<noteq> []
      | Arr xs \<Rightarrow> True
      | Obj kv \<Rightarrow> True)"

text \<open>
  Reading a property \<open>v.p\<close>, for the property names of the script (none of them is a
  property that strings, numbers, arrays or objects inherit): a \<open>TypeError\<close> on
  \<open>undefined\<close> and \<open>null\<close>, the own property of an object, \<open>undefined\<close> otherwise.
  \<open>v[0]\<close> is the first element of an array and the first code unit of a string;
  \<open>v.length\<close> is the length of an array or a string.
\<close>

definition get_prop :: "jsval \<Rightarrow> string \<Rightarrow> error + jsval" where
  "get_prop v p =
     (case v of
        Undefined \<Rightarrow> Inl TypeError
      | Null \<Rightarrow> Inl TypeError
      | Obj kv \<Rightarrow> Inr (case map_of kv (js p) of None \<Rightarrow> Undefined | Some x \<Rightarrow> x)
      | Bool b \<Rightarrow> Inr Undefined
      | Number n \<Rightarrow> Inr Undefined
      | Str s \<Rightarrow> Inr Undefined
      | Arr xs \<Rightarrow> Inr Undefined)"

definition idx0 :: "jsval \<Rightarrow> error + jsval" where
  "idx0 v =
     (case v of
        Undefined \<Rightarrow> Inl TypeError
      | Null \<Rightarrow> Inl TypeError
      | Arr xs \<Rightarrow> Inr (case xs of [] \<Rightarrow> Undefined | x # rest \<Rightarrow> x)
      | Str s \<Rightarrow> Inr (case s of [] \<Rightarrow> Undefined | u # rest \<Rightarrow> Str [u])
      | Obj kv \<Rightarrow> Inr (case map_of kv (js ''0'') of None \<Rightarrow> Undefined | Some x \<Rightarrow> x)
      | Bool b \<Rightarrow> Inr Undefined
      | Number n \<Rightarrow> Inr Undefined)"

definition length_of :: "jsval \<Rightarrow> error + jsval" where
  "length_of v =
     (case v of
        Undefined \<Rightarrow> Inl TypeError
      | Null \<Rightarrow> Inl TypeError
      | Arr xs \<Rightarrow> Inr (Number (Fin (of_nat (length xs))))
      | Str s \<Rightarrow> Inr (Number (Fin (of_nat (length s))))
      | Obj kv \<Rightarrow> Inr (case map_of kv (js ''length'') of None \<Rightarrow> Undefined | Some x \<Rightarrow> x)
      | Bool b \<Rightarrow> Inr Undefined
      | Number n \<Rightarrow> Inr Undefined)"

text \<open>A member expression such as \<open>data.current_condition[0].temp_F\<close>, read step by step.\<close>

datatype step = Member string | First

fun path :: "jsval \<Rightarrow> step list \<Rightarrow> error + jsval" where
  "path v [] = Inr v"
| "path v (Member p # rest) = bind_ok (get_prop v p) (\<lambda>w. path w rest)"
| "path v (First # rest) = bind_ok (idx0 v) (\<lambda>w. path w rest)"

text \<open>
  The method call \<open>v.toLowerCase()\<close>: only a string has the method; on every other
  value the call throws a \<open>TypeError\<close>.
\<close>

definition call_toLowerCase :: "engine \<Rightarrow> jsval \<Rightarrow> error + jsstring" where
  "call_toLowerCase rt v = (case v of Str s \<Rightarrow> Inr (toLowerCase rt s) | _ \<Rightarrow> Inl TypeError)"

subsection \<open>Normalisation helpers\<close>

text \<open>
  The icon keys of the script's \<open>weatherIcons\<close> table: \<open>01d\<close> clear sky day,
  \<open>02d\<close> few (partly) clouds day, \<open>03d\<close> scattered clouds day, \<open>09d\<close> shower rain
  day, \<open>10d\<close> rain day, \<open>11d\<close> thunderstorm day, \<open>13d\<close> snow day, \<open>50d\<close> mist day.
\<close>

text \<open>
  \<open>getWeatherDescription\<close> on a finite number: the object literal \<open>descriptions\<close> as
  an association list, the read \<open>descriptions[code]\<close> as a lookup (the key of a number
  is its canonical text, so a number finds the entry of the same value; no entry:
  \<open>undefined\<close>), and \<open>|| 'clear sky'\<close> replacing \<open>undefined\<close> and the empty string.
\<close>

definition descriptions :: "(rat \<times> string) list" where
  "descriptions =
     [(0, ''clear sky''), (1, ''mainly clear''), (2, ''partly cloudy''), (3, ''overcast''),
      (45, ''fog''), (48, ''depositing rime fog''),
      (51, ''light drizzle''), (53, ''moderate drizzle''), (55, ''dense drizzle''),
      (61, ''slight rain''), (63, ''moderate rain''), (65, ''heavy rain''),
      (71, ''slight snow''), (73, ''moderate snow''), (75, ''heavy snow''),
      (95, ''thunderstorm''), (96, ''thunderstorm with hail''),
      (99, ''thunderstorm with heavy hail'')]"

definition getWeatherDescription :: "rat \<Rightarrow> string" where
  "getWeatherDescription code =
     (case map_of descriptions code of
        None \<Rightarrow> ''clear sky''
      | Some d \<Rightarrow> if d = [] then ''clear sky'' else d)"

text \<open>\<open>getWeatherIconFromCode\<close> on a finite number.\<close>

definition getWeatherIconFromCode :: "rat \<Rightarrow> string" where
  "getWeatherIconFromCode code =
     (if code = 0 then ''01d''
      else if code \<le> 3 then ''02d''
      else if code \<ge> 45 \<and> code \<le> 48 then ''50d''
      else if code \<ge> 51 \<and> code \<le> 55 then ''09d''
      else if code \<ge> 61 \<and> code \<le> 65 then ''10d''
      else if code \<ge> 71 \<and> code \<le> 75 then ''13d''
      else if code \<ge> 95 then ''11d''
      else ''01d'')"

definition getWeatherIconFromDescription :: "engine \<Rightarrow> jsstring \<Rightarrow> string" where
  "getWeatherIconFromDescription rt description =
     (let desc = toLowerCase rt description in
      if str_includes desc (js ''clear'') \<or> str_includes desc (js ''sunny'') then ''01d''
      else if str_includes desc (js ''cloud'') then ''03d''
      else if str_includes desc (js ''rain'') \<or> str_includes desc (js ''drizzle'') then ''10d''
      else if str_includes desc (js ''thunder'') then ''11d''
      else if str_includes desc (js ''snow'') then ''13d''
      else if str_includes desc (js ''mist'') \<or> str_includes desc (js ''fog'') then ''50d''
      else ''01d'')"

text \<open>
  The two helpers of adapter B on an arbitrary decoded value, as the adapter calls them
  with \<open>current.weathercode\<close>. A value that is not a number is turned into a property key
  by \<open>ToString\<close>: the key finds an entry of \<open>descriptions\<close> when it is the text of one
  of the 18 codes, and otherwise a property inherited from \<open>Object.prototype\<close> when it
  names one (a function, which \<open>||\<close> lets through), and otherwise nothing.
  \<open>code === 0\<close> holds of the number zero only; the order relations convert the value
  with \<open>ToNumber\<close>.
\<close>

datatype descr = Text jsstring | Inherited jsstring

definition description_keys :: "(jsstring \<times> rat) list" where
  "description_keys =
     [(js ''0'', 0), (js ''1'', 1), (js ''2'', 2), (js ''3'', 3), (js ''45'', 45),
      (js ''48'', 48), (js ''51'', 51), (js ''53'', 53), (js ''55'', 55), (js ''61'', 61),
      (js ''63'', 63), (js ''65'', 65), (js ''71'', 71), (js ''73'', 73), (js ''75'', 75),
      (js ''95'', 95), (js ''96'', 96), (js ''99'', 99)]"

definition getWeatherDescription_of :: "engine \<Rightarrow> jsval \<Rightarrow> error + descr" where
  "getWeatherDescription_of rt code =
     (case code of
        Number n \<Rightarrow>
          Inr (Text (js (case n of Fin c \<Rightarrow> getWeatherDescription c | _ \<Rightarrow> ''clear sky'')))
      | _ \<Rightarrow>
          bind_ok (ToString rt code) (\<lambda>key.
            Inr (case map_of description_keys key of
                   Some c \<Rightarrow> Text (js (getWeatherDescription c))
                 | None \<Rightarrow> if ObjectPrototype rt key then Inherited key
                           else Text (js ''clear sky''))))"

definition getWeatherIconFromCode_of :: "engine \<Rightarrow> jsval \<Rightarrow> error + string" where
  "getWeatherIconFromCode_of rt code =
     (if code = Number (Fin 0) then Inr ''01d''
      else bind_ok (ToNumber rt code) (\<lambda>n.
        Inr (if js_le n 3 then ''02d''
             else if js_ge n 45 \<and> js_le n 48 then ''50d''
             else if js_ge n 51 \<and> js_le n 55 then ''09d''
             else if js_ge n 61 \<and> js_le n 65 then ''10d''
             else if js_ge n 71 \<and> js_le n 75 then ''13d''
             else if js_ge n 95 then ''11d''
             else ''01d'')))"

subsection \<open>Provider responses\<close>

text \<open>
  \<open>fetch\<close> either rejects (a \<open>TypeError\<close>, the transport failed) or resolves to a
  response with its \<open>ok\<close> flag and its body; \<open>response.json()\<close> yields the decoded
  body, or rejects with a \<open>SyntaxError\<close> when the body is not JSON (\<open>None\<close>).
\<close>

datatype response = NetworkError | Response bool "jsval option"

text \<open>
  The network as the adapters see it, one entry per request of the script, each a
  function of the text the script puts into the URL:
  \<open>api.weatherapi.com/v1/current.json\<close> and the geocoding search of
  \<open>geocoding-api.open-meteo.com\<close> for the encoded city, the forecast of
  \<open>api.open-meteo.com\<close> for the latitude and longitude as written into the URL, and
  \<open>wttr.in\<close> for the encoded city.
\<close>

record network =
  weatherapi_current :: "jsstring \<Rightarrow> response"
  geocoding_search :: "jsstring \<Rightarrow> response"
  openmeteo_forecast :: "jsstring \<Rightarrow> jsstring \<Rightarrow> response"
  wttr_j1 :: "jsstring \<Rightarrow> response"

subsection \<open>The normalised report and the three adapters\<close>

record main_part =
  temp :: jsnum
  humidity :: jsval

record weather_part =
  description :: descr
  icon :: jsstring

record report =
  name :: jsstring
  main :: main_part
  weather :: "weather_part list"

definition fetchFromWeatherAPI :: "engine \<Rightarrow> network \<Rightarrow> jsstring \<Rightarrow> error + report" where
  "fetchFromWeatherAPI rt nw city =
     bind_ok (encodeURIComponent rt city) (\<lambda>q.
     case weatherapi_current nw q of
       NetworkError \<Rightarrow> Inl TypeError
     | Response ok body \<Rightarrow>
         if \<not> ok then Inl (Error ''WeatherAPI failed'')
         else (case body of
                 None \<Rightarrow> Inl SyntaxError
               | Some d \<Rightarrow>
                   bind_ok (path d [Member ''location'', Member ''name'']) (\<lambda>locName.
                   bind_ok (ToString rt locName) (\<lambda>s1.
                   bind_ok (path d [Member ''location'', Member ''country'']) (\<lambda>locCountry.
                   bind_ok (ToString rt locCountry) (\<lambda>s2.
                   bind_ok (path d [Member ''current'', Member ''temp_f'']) (\<lambda>temp_f.
                   bind_ok (ToNumber rt temp_f) (\<lambda>t.
                   bind_ok (path d [Member ''current'', Member ''humidity'']) (\<lambda>h.
                   bind_ok (path d [Member ''current'', Member ''condition'', Member ''text'']) (\<lambda>txt.
                   bind_ok (call_toLowerCase rt txt) (\<lambda>desc.
                     Inr \<lparr> name = s1 @ js '', '' @ s2,
                           main = \<lparr> temp = Math_round t, humidity = h \<rparr>,
                           weather =
                             [\<lparr> description = Text desc,
                                icon = js (getWeatherIconFromDescription rt desc) \<rparr>] \<rparr>)))))))))))"

definition fetchFromOpenMeteo :: "engine \<Rightarrow> network \<Rightarrow> jsstring \<Rightarrow> error + report" where
  "fetchFromOpenMeteo rt nw city =
     bind_ok (encodeURIComponent rt city) (\<lambda>q.
     case geocoding_search nw q of
       NetworkError \<Rightarrow> Inl TypeError
     | Response geoOk geoBody \<Rightarrow>
         if \<not> geoOk then Inl (Error ''Geocoding failed'')
         else (case geoBody of
                 None \<Rightarrow> Inl SyntaxError
               | Some geoData \<Rightarrow>
                   bind_ok (get_prop geoData ''results'') (\<lambda>results.
                   if \<not> truthy results then Inl (Error ''City not found'')
                   else
                   bind_ok (length_of results) (\<lambda>len.
                   if len = Number (Fin 0) then Inl (Error ''City not found'')
                   else
                   bind_ok (idx0 results) (\<lambda>r.
                   bind_ok (get_prop r ''latitude'') (\<lambda>latitude.
                   bind_ok (get_prop r ''longitude'') (\<lambda>longitude.
                   bind_ok (get_prop r ''name'') (\<lambda>rname.
                   bind_ok (get_prop r ''country'') (\<lambda>country.
                   bind_ok (ToString rt latitude) (\<lambda>lat.
                   bind_ok (ToString rt longitude) (\<lambda>lon.
                   case openmeteo_forecast nw lat lon of
                     NetworkError \<Rightarrow> Inl TypeError
                   | Response weatherOk weatherBody \<Rightarrow>
                       if \<not> weatherOk then Inl (Error ''Weather fetch failed'')
                       else (case weatherBody of
                               None \<Rightarrow> Inl SyntaxError
                             | Some weatherData \<Rightarrow>
                                 bind_ok (get_prop weatherData ''current_weather'') (\<lambda>current.
                                 bind_ok (ToString rt rname) (\<lambda>s1.
                                 bind_ok (ToString rt country) (\<lambda>s2.
                                 bind_ok (get_prop current ''temperature'') (\<lambda>temperature.
                                 bind_ok (ToNumber rt temperature) (\<lambda>t.
                                 bind_ok (get_prop current ''weathercode'') (\<lambda>code.
                                 bind_ok (getWeatherDescription_of rt code) (\<lambda>desc.
                                 bind_ok (getWeatherIconFromCode_of rt code) (\<lambda>ic.
                                   Inr \<lparr> name = s1 @ js '', '' @ s2,
                                         main = \<lparr> temp = Math_round t,
                                                  humidity = Number (Fin 65) \<rparr>,
                                         weather =
                                           [\<lparr> description = desc,
                                              icon = js ic \<rparr>] \<rparr>))))))))))))))))))))"

definition fetchFromWttr :: "engine \<Rightarrow> network \<Rightarrow> jsstring \<Rightarrow> error + report" where
  "fetchFromWttr rt nw city =
     bind_ok (encodeURIComponent rt city) (\<lambda>q.
     case wttr_j1 nw q of
       NetworkError \<Rightarrow> Inl TypeError
     | Response ok body \<Rightarrow>
         if \<not> ok then Inl (Error ''Wttr failed'')
         else (case body of
                 None \<Rightarrow> Inl SyntaxError
               | Some d \<Rightarrow>
                   bind_ok (path d [Member ''current_condition'', First]) (\<lambda>current.
                   bind_ok (path d [Member ''nearest_area'', First]) (\<lambda>location.
                   bind_ok (path location [Member ''areaName'', First, Member ''value'']) (\<lambda>area.
                   bind_ok (ToString rt area) (\<lambda>s1.
                   bind_ok (path location [Member ''country'', First, Member ''value'']) (\<lambda>country.
                   bind_ok (ToString rt country) (\<lambda>s2.
                   bind_ok (get_prop current ''temp_F'') (\<lambda>temp_F.
                   bind_ok (ToString rt temp_F) (\<lambda>ts.
                   bind_ok (get_prop current ''humidity'') (\<lambda>hum.
                   bind_ok (ToString rt hum) (\<lambda>hs.
                   bind_ok (path current [Member ''weatherDesc'', First, Member ''value'']) (\<lambda>wd.
                   bind_ok (call_toLowerCase rt wd) (\<lambda>desc.
                     Inr \<lparr> name = s1 @ js '', '' @ s2,
                           main = \<lparr> temp = Math_round (parseInt rt ts),
                                    humidity = Number (parseInt rt hs) \<rparr>,
                           weather =
                             [\<lparr> description = Text desc,
                                icon = js (getWeatherIconFromDescription rt desc) \<rparr>] \<rparr>))))))))))))))"

subsection \<open>The cache and the orchestrator\<close>

datatype source = WeatherAPI | OpenMeteo | Wttr

record cache_entry =
  data :: report
  timestamp :: int

type_synonym cache = "jsstring \<Rightarrow> cache_entry option"

definition CACHE_DURATION :: int where
  "CACHE_DURATION = 10 * 60 * 1000"

text \<open>The cache key \<open>city.toLowerCase().trim()\<close>.\<close>

definition cacheKey :: "engine \<Rightarrow> jsstring \<Rightarrow> jsstring" where
  "cacheKey rt city = trim rt (toLowerCase rt city)"

text \<open>
  What a call of \<open>fetchWeatherData\<close> meets: the engine, the network, the order in which
  the three adapter promises settle (an adapter that is not in the list never settles),
  and the two readings of \<open>Date.now()\<close>, at the cache check and at the cache write.
\<close>

record env =
  js_engine :: engine
  net :: network
  settle_order :: "source list"
  now_at_check :: int
  now_at_store :: int

definition promises :: "engine \<Rightarrow> network \<Rightarrow> jsstring \<Rightarrow> source \<Rightarrow> error + report" where
  "promises rt nw city s =
     (case s of
        WeatherAPI \<Rightarrow> fetchFromWeatherAPI rt nw city
      | OpenMeteo \<Rightarrow> fetchFromOpenMeteo rt nw city
      | Wttr \<Rightarrow> fetchFromWttr rt nw city)"

text \<open>
  \<open>Promise.any\<close>: fulfilled with the value of the first promise that fulfils, rejected
  (an \<open>AggregateError\<close>) once all three have rejected, and pending for ever (\<open>None\<close>)
  otherwise.
\<close>

fun first_fulfilled :: "source list \<Rightarrow> (source \<Rightarrow> error + 'a) \<Rightarrow> 'a option" where
  "first_fulfilled [] ps = None"
| "first_fulfilled (s # ss) ps =
     (case ps s of Inr v \<Rightarrow> Some v | Inl e \<Rightarrow> first_fulfilled ss ps)"

definition Promise_any :: "source list \<Rightarrow> (source \<Rightarrow> error + 'a) \<Rightarrow> (error + 'a) option" where
  "Promise_any order ps =
     (case first_fulfilled order ps of
        Some v \<Rightarrow> Some (Inr v)
      | None \<Rightarrow>
          if WeatherAPI \<in> set order \<and> OpenMeteo \<in> set order \<and> Wttr \<in> set order
          then Some (Inl AggregateError) else None)"

text \<open>
  The result of a call: what the returned promise settles to (\<open>None\<close>: it never
  settles), the cache after the call, and the adapters the call has started.
\<close>

record fetch_outcome =
  settled :: "(error + report) option"
  cache_after :: cache
  invoked :: "source list"

definition fetchWeatherData :: "env \<Rightarrow> cache \<Rightarrow> jsstring \<Rightarrow> fetch_outcome" where
  "fetchWeatherData e WEATHER_CACHE city =
     (let key = cacheKey (js_engine e) city;
          fresh = (case WEATHER_CACHE key of
                     None \<Rightarrow> None
                   | Some cached \<Rightarrow>
                       if now_at_check e - timestamp cached < CACHE_DURATION
                       then Some (data cached) else None)
      in case fresh of
           Some d \<Rightarrow> \<lparr> settled = Some (Inr d), cache_after = WEATHER_CACHE, invoked = [] \<rparr>
         | None \<Rightarrow>
             (case Promise_any (settle_order e) (promises (js_engine e) (net e) city) of
                None \<Rightarrow>
                  \<lparr> settled = None, cache_after = WEATHER_CACHE,
                    invoked = [WeatherAPI, OpenMeteo, Wttr] \<rparr>
              | Some (Inr d) \<Rightarrow>
                  \<lparr> settled = Some (Inr d),
                    cache_after = WEATHER_CACHE(key \<mapsto> \<lparr> data = d, timestamp = now_at_store e \<rparr>),
                    invoked = [WeatherAPI, OpenMeteo, Wttr] \<rparr>
              | Some (Inl err) \<Rightarrow>
                  \<lparr> settled = Some (Inl (Error ''Unable to fetch weather data from any source'')),
                    cache_after = WEATHER_CACHE,
                    invoked = [WeatherAPI, OpenMeteo, Wttr] \<rparr>))"

subsection \<open>Notions of the specification\<close>

text \<open>
  An adapter fails (succeeds) in a call when the call has started it and its promise
  settles rejected (fulfilled).
\<close>

definition adapter_fails :: "env \<Rightarrow> cache \<Rightarrow> jsstring \<Rightarrow> source \<Rightarrow> bool" where
  "adapter_fails e c city s =
     (s \<in> set (invoked (fetchWeatherData e c city)) \<and> s \<in> set (settle_order e) \<and>
      isl (promises (js_engine e) (net e) city s))"


text \<open>
  The cache holds a fresh entry for a query: an entry under the query's key whose age at
  the check is below the staleness duration.
\<close>

definition is_fresh :: "env \<Rightarrow> cache \<Rightarrow> jsstring \<Rightarrow> bool" where
  "is_fresh e c city =
     (case c (cacheKey (js_engine e) city) of
        None \<Rightarrow> False
      | Some cached \<Rightarrow> now_at_check e - timestamp cached < CACHE_DURATION)"

text \<open>
  A response is unusable when the transport failed, the status is not a success, or the
  body is not JSON.
\<close>

definition unusable :: "response \<Rightarrow> bool" where
  "unusable resp =
     (case resp of NetworkError \<Rightarrow> True | Response ok body \<Rightarrow> \<not> ok \<or> body = None)"

text \<open>
  Reading a field of a decoded body for the report: the value at the end of a member
  expression, converted to a string, converted to a number, or required to be a string
  (as the call of \<open>toLowerCase\<close> on it requires). Each of them fails when a value on the
  way is \<open>undefined\<close> or \<open>null\<close>, or when the conversion throws.
\<close>

definition read_string :: "engine \<Rightarrow> jsval \<Rightarrow> step list \<Rightarrow> error + jsstring" where
  "read_string rt d steps = bind_ok (path d steps) (ToString rt)"

definition read_number :: "engine \<Rightarrow> jsval \<Rightarrow> step list \<Rightarrow> error + jsnum" where
  "read_number rt d steps = bind_ok (path d steps) (ToNumber rt)"

definition read_text :: "jsval \<Rightarrow> step list \<Rightarrow> error + jsstring" where
  "read_text d steps =
     bind_ok (path d steps) (\<lambda>v. case v of Str s \<Rightarrow> Inr s | _ \<Rightarrow> Inl TypeError)"

text \<open>
  The bucket rule for adapter B as the specification words it, with the second bucket
  the closed interval from 1 to 3.
\<close>

definition spec_icon_bucket :: "rat \<Rightarrow> string" where
  "spec_icon_bucket code =
     (if code = 0 then ''01d''
      else if 1 \<le> code \<and> code \<le> 3 then ''02d''
      else if 45 \<le> code \<and> code \<le> 48 then ''50d''
      else if 51 \<le> code \<and> code \<le> 55 then ''09d''
      else if 61 \<le> code \<and> code \<le> 65 then ''10d''
      else if 71 \<le> code \<and> code \<le> 75 then ''13d''
      else if 95 \<le> code then ''11d''
      else ''01d'')"

text \<open>
  The keyword rule for adapters A and C as the specification words it: a description
  contains a keyword when its lower-cased text splits around the keyword.
\<close>

definition contains_kw :: "engine \<Rightarrow> jsstring \<Rightarrow> string \<Rightarrow> bool" where
  "contains_kw rt d kw = (\<exists>u v. toLowerCase rt d = u @ js kw @ v)"

text \<open>
  The readers of adapter B for the weather code, and the first half of adapter B: the
  geocoding request for the city has a usable response whose \<open>results\<close> is a value
  \<open>rs\<close> that passes the emptiness test, and the latitude and longitude of \<open>rs[0]\<close>
  convert to the strings \<open>la\<close> and \<open>lo\<close> that go into the URL of the forecast.
\<close>

definition read_description :: "engine \<Rightarrow> jsval \<Rightarrow> step list \<Rightarrow> error + descr" where
  "read_description rt d steps = bind_ok (path d steps) (getWeatherDescription_of rt)"

definition read_icon :: "engine \<Rightarrow> jsval \<Rightarrow> step list \<Rightarrow> error + string" where
  "read_icon rt d steps = bind_ok (path d steps) (getWeatherIconFromCode_of rt)"

definition geocoded ::
  "engine \<Rightarrow> network \<Rightarrow> jsstring \<Rightarrow> jsval \<Rightarrow> jsstring \<Rightarrow> jsstring \<Rightarrow> bool" where
  "geocoded rt nw city rs la lo =
     (\<exists>q g. encodeURIComponent rt city = Inr q \<and>
            geocoding_search nw q = Response True (Some g) \<and>
            path g [Member ''results''] = Inr rs \<and>
            truthy rs \<and> length_of rs \<noteq> Inr (Number (Fin 0)) \<and>
            read_string rt rs [First, Member ''latitude''] = Inr la \<and>
            read_string rt rs [First, Member ''longitude''] = Inr lo)"

subsection \<open>What ECMAScript fixes for ASCII text\<close>

text \<open>
  On a string of ASCII code units \<open>toLowerCase\<close> maps the letters \<open>A\<close> to \<open>Z\<close> to
  \<open>a\<close> to \<open>z\<close> and leaves the rest, and \<open>trim\<close> removes tab, line feed, vertical
  tab, form feed, carriage return and space at both ends. An engine that does so is
  \<open>ecma_ascii\<close>; beyond ASCII nothing is required of it here.
\<close>

definition is_ascii :: "jsstring \<Rightarrow> bool" where
  "is_ascii s = (\<forall>u\<in>set s. u < 128)"

definition ascii_toLowerCase :: "jsstring \<Rightarrow> jsstring" where
  "ascii_toLowerCase s = map (\<lambda>u. if 65 \<le> u \<and> u \<le> 90 then u + 32 else u) s"

definition ascii_isWhiteSpace :: "nat \<Rightarrow> bool" where
  "ascii_isWhiteSpace u = (u \<in> {9, 10, 11, 12, 13, 32})"

definition ascii_trim :: "jsstring \<Rightarrow> jsstring" where
  "ascii_trim s = rev (dropWhile ascii_isWhiteSpace (rev (dropWhile ascii_isWhiteSpace s)))"

definition ecma_ascii :: "engine \<Rightarrow> bool" where
  "ecma_ascii rt =
     (\<forall>s. is_ascii s \<longrightarrow> toLowerCase rt s = ascii_toLowerCase s \<and> trim rt s = ascii_trim s)"

subsection \<open>An engine, networks and a report for the examples\<close>

text \<open>
  An engine for the examples. Its functions are those of ECMAScript on ASCII strings,
  on digit strings that denote a number below \<open>2^53\<close> and on whole numbers below
  \<open>10^21\<close>; the examples use them only there.
\<close>

definition digitValue :: "nat \<Rightarrow> nat option" where
  "digitValue u =
     (if 48 \<le> u \<and> u \<le> 57 then Some (u - 48)
      else if 97 \<le> u \<and> u \<le> 122 then Some (u - 87)
      else if 65 \<le> u \<and> u \<le> 90 then Some (u - 55)
      else None)"

definition isRadixDigit :: "nat \<Rightarrow> nat \<Rightarrow> bool" where
  "isRadixDigit r u = (case digitValue u of None \<Rightarrow> False | Some d \<Rightarrow> d < r)"

definition digitsValue :: "nat \<Rightarrow> jsstring \<Rightarrow> nat" where
  "digitsValue r z =
     foldl (\<lambda>acc u. acc * r + (case digitValue u of None \<Rightarrow> 0 | Some d \<Rightarrow> d)) 0 z"

text \<open>
  \<open>parseInt\<close> with no radix: skip leading white space, read an optional sign, switch to
  radix 16 after a \<open>0x\<close> or \<open>0X\<close> prefix, read the longest run of digits of the radix;
  with no digit at all the result is \<open>NaN\<close>.
\<close>

definition ascii_parseInt :: "jsstring \<Rightarrow> jsnum" where
  "ascii_parseInt str =
     (let s = dropWhile ascii_isWhiteSpace str;
          sign = (if take 1 s = js ''-'' then - 1 else 1 :: int);
          s1 = (if take 1 s = js ''-'' \<or> take 1 s = js ''+'' then drop 1 s else s);
          hex = (take 2 s1 = js ''0x'' \<or> take 2 s1 = js ''0X'');
          r = (if hex then 16 else 10);
          s2 = (if hex then drop 2 s1 else s1);
          z = takeWhile (isRadixDigit r) s2
      in if z = [] then NaN else Fin (of_int (sign * int (digitsValue r z))))"

text \<open>
  \<open>encodeURIComponent\<close> on ASCII text: letters, digits and \<open>- _ . ! ~ * ' ( )\<close> stay,
  every other code unit becomes \<open>%\<close> and two hexadecimal digits.
\<close>

definition hexDigit :: "nat \<Rightarrow> nat" where
  "hexDigit d = (if d < 10 then 48 + d else 55 + d)"

definition percentEncode :: "nat \<Rightarrow> jsstring" where
  "percentEncode u =
     (if (65 \<le> u \<and> u \<le> 90) \<or> (97 \<le> u \<and> u \<le> 122) \<or> (48 \<le> u \<and> u \<le> 57) \<or>
         u \<in> {45, 95, 46, 33, 126, 42, 39, 40, 41}
      then [u] else [37, hexDigit (u div 16), hexDigit (u mod 16)])"

definition ascii_encodeURIComponent :: "jsstring \<Rightarrow> error + jsstring" where
  "ascii_encodeURIComponent s =
     (if is_ascii s then Inr (concat (map percentEncode s)) else Inl URIError)"

fun decimal :: "nat \<Rightarrow> jsstring" where
  "decimal n = (if n < 10 then [48 + n] else decimal (n div 10) @ [48 + n mod 10])"

declare decimal.simps [simp del]

definition ascii_NumberToString :: "jsnum \<Rightarrow> jsstring" where
  "ascii_NumberToString n =
     (case n of
        NaN \<Rightarrow> js ''NaN''
      | PosInfinity \<Rightarrow> js ''Infinity''
      | NegInfinity \<Rightarrow> js ''-Infinity''
      | Fin q \<Rightarrow> (if q < 0 then js ''-'' else []) @ decimal (nat \<lfloor>\<bar>q\<bar>\<rfloor>))"

definition ascii_StringToNumber :: "jsstring \<Rightarrow> jsnum" where
  "ascii_StringToNumber s =
     (let t = ascii_trim s in
      if t = [] then Fin 0
      else if list_all (isRadixDigit 10) t then Fin (of_nat (digitsValue 10 t))
      else NaN)"

definition ascii_ObjectPrototype :: "jsstring \<Rightarrow> bool" where
  "ascii_ObjectPrototype key =
     (key \<in> set (map js
        [''constructor'', ''toString'', ''toLocaleString'', ''valueOf'', ''hasOwnProperty'',
         ''isPrototypeOf'', ''propertyIsEnumerable'', ''__proto__'', ''__defineGetter__'',
         ''__defineSetter__'', ''__lookupGetter__'', ''__lookupSetter__'']))"

definition ascii_engine :: engine where
  "ascii_engine =
     \<lparr> toLowerCase = ascii_toLowerCase,
       trim = ascii_trim,
       parseInt = ascii_parseInt,
       encodeURIComponent = ascii_encodeURIComponent,
       NumberToString = ascii_NumberToString,
       StringToNumber = ascii_StringToNumber,
       ObjectPrototype = ascii_ObjectPrototype \<rparr>"

text \<open>
  A network on which every request fails in transport; a \<open>wttr.in\<close> body for Paris with
  given \<open>temp_F\<close> and \<open>humidity\<close> strings; a network on which only \<open>wttr.in\<close> answers,
  with that body; and the report adapter C builds from the strings \<open>72\<close> and \<open>55\<close>.
\<close>

definition net_down :: network where
  "net_down =
     \<lparr> weatherapi_current = (\<lambda>q. NetworkError),
       geocoding_search = (\<lambda>q. NetworkError),
       openmeteo_forecast = (\<lambda>lat lon. NetworkError),
       wttr_j1 = (\<lambda>q. NetworkError) \<rparr>"

definition wttr_paris :: "string \<Rightarrow> string \<Rightarrow> jsval" where
  "wttr_paris t h =
     Obj [(js ''current_condition'',
           Arr [Obj [(js ''temp_F'', Str (js t)),
                     (js ''humidity'', Str (js h)),
                     (js ''weatherDesc'', Arr [Obj [(js ''value'', Str (js ''Sunny''))]])]]),
          (js ''nearest_area'',
           Arr [Obj [(js ''areaName'', Arr [Obj [(js ''value'', Str (js ''Paris''))]]),
                     (js ''country'', Arr [Obj [(js ''value'', Str (js ''France''))]])]])]"

definition net_wttr_only :: "string \<Rightarrow> string \<Rightarrow> network" where
  "net_wttr_only t h =
     \<lparr> weatherapi_current = (\<lambda>q. NetworkError),
       geocoding_search = (\<lambda>q. NetworkError),
       openmeteo_forecast = (\<lambda>lat lon. NetworkError),
       wttr_j1 = (\<lambda>q. Response True (Some (wttr_paris t h))) \<rparr>"

definition paris_report :: report where
  "paris_report =
     \<lparr> name = js ''Paris, France'',
       main = \<lparr> temp = Fin 72, humidity = Number (Fin 55) \<rparr>,
       weather = [\<lparr> description = Text (js ''sunny''), icon = js ''01d'' \<rparr>] \<rparr>"

text \<open>
  Bodies of the three providers for Paris, and variants that lack a part: a
  \<open>weatherapi\<close> body without \<open>current\<close>, an empty geocoding result list, a \<open>wttr.in\<close>
  body whose \<open>weatherDesc\<close> is empty. The networks on which one provider answers with
  a given body (the forecast with the same body for every coordinate) and the others
  fail in transport.
\<close>

definition weatherapi_paris :: jsval where
  "weatherapi_paris =
     Obj [(js ''location'',
           Obj [(js ''name'', Str (js ''Paris'')), (js ''country'', Str (js ''France''))]),
          (js ''current'',
           Obj [(js ''temp_f'', Number (Fin (145 / 2))),
                (js ''humidity'', Number (Fin 55)),
                (js ''condition'', Obj [(js ''text'', Str (js ''Sunny''))])])]"

definition weatherapi_no_current :: jsval where
  "weatherapi_no_current =
     Obj [(js ''location'',
           Obj [(js ''name'', Str (js ''Paris'')), (js ''country'', Str (js ''France''))])]"

definition geocoding_paris :: jsval where
  "geocoding_paris =
     Obj [(js ''results'',
           Arr [Obj [(js ''latitude'', Number (Fin 49)), (js ''longitude'', Number (Fin 2)),
                     (js ''name'', Str (js ''Paris'')), (js ''country'', Str (js ''France''))]])]"

definition geocoding_empty :: jsval where
  "geocoding_empty = Obj [(js ''results'', Arr [])]"

definition forecast_paris :: jsval where
  "forecast_paris =
     Obj [(js ''current_weather'',
           Obj [(js ''temperature'', Number (Fin (143 / 2))),
                (js ''weathercode'', Number (Fin 61))])]"

definition wttr_no_description :: jsval where
  "wttr_no_description =
     Obj [(js ''current_condition'',
           Arr [Obj [(js ''temp_F'', Str (js ''72'')),
                     (js ''humidity'', Str (js ''55'')),
                     (js ''weatherDesc'', Arr [])]]),
          (js ''nearest_area'',
           Arr [Obj [(js ''areaName'', Arr [Obj [(js ''value'', Str (js ''Paris''))]]),
                     (js ''country'', Arr [Obj [(js ''value'', Str (js ''France''))]])]])]"

definition net_weatherapi :: "jsval \<Rightarrow> network" where
  "net_weatherapi body =
     \<lparr> weatherapi_current = (\<lambda>q. Response True (Some body)),
       geocoding_search = (\<lambda>q. NetworkError),
       openmeteo_forecast = (\<lambda>lat lon. NetworkError),
       wttr_j1 = (\<lambda>q. NetworkError) \<rparr>"

definition net_openmeteo :: "jsval \<Rightarrow> jsval \<Rightarrow> network" where
  "net_openmeteo geo forecast =
     \<lparr> weatherapi_current = (\<lambda>q. NetworkError),
       geocoding_search = (\<lambda>q. Response True (Some geo)),
       openmeteo_forecast = (\<lambda>lat lon. Response True (Some forecast)),
       wttr_j1 = (\<lambda>q. NetworkError) \<rparr>"

definition net_wttr :: "jsval \<Rightarrow> network" where
  "net_wttr body =
     \<lparr> weatherapi_current = (\<lambda>q. NetworkError),
       geocoding_search = (\<lambda>q. NetworkError),
       openmeteo_forecast = (\<lambda>lat lon. NetworkError),
       wttr_j1 = (\<lambda>q. Response True (Some body)) \<rparr>"

section \<open>Auxiliary facts\<close>

subsection \<open>Strings and the example engine\<close>

lemma js_eq_iff [simp]: "js a = js b \<longleftrightarrow> a = b"
  by (simp add: js_def inj_of_char)

lemma js_append: "js (a @ b) = js a @ js b"
  by (simp add: js_def)

lemma is_ascii_js_Paris: "is_ascii (js ''Paris'')" "is_ascii (js '' paris '')" "is_ascii (js ''PARIS'')"
  by (simp_all add: is_ascii_def js_def)

lemma bind_ok_simps [simp]: "bind_ok (Inl e) k = Inl e" "bind_ok (Inr x) k = k x"
  by (simp_all add: bind_ok_def)

lemma str_includes_iff: "str_includes s pat \<longleftrightarrow> (\<exists>u v. s = u @ pat @ v)"
proof (induction s)
  case Nil
  then show ?case by auto
next
  case (Cons c cs)
  show ?case
  proof
    assume "str_includes (c # cs) pat"
    then consider "prefix pat (c # cs)" | "str_includes cs pat" by auto
    then show "\<exists>u v. c # cs = u @ pat @ v"
    proof cases
      case 1
      then obtain v where "c # cs = pat @ v" by (auto simp: prefix_def)
      then have "c # cs = [] @ pat @ v" by simp
      then show ?thesis by blast
    next
      case 2
      with Cons.IH obtain u v where "cs = u @ pat @ v" by blast
      then have "c # cs = (c # u) @ pat @ v" by simp
      then show ?thesis by blast
    qed
  next
    assume "\<exists>u v. c # cs = u @ pat @ v"
    then obtain u v where uv: "c # cs = u @ pat @ v" by blast
    show "str_includes (c # cs) pat"
    proof (cases u)
      case Nil
      with uv have "prefix pat (c # cs)" by (simp add: prefix_def)
      then show ?thesis by simp
    next
      case (Cons a u')
      with uv have "cs = u' @ pat @ v" by simp
      with Cons.IH have "str_includes cs pat" by blast
      then show ?thesis by simp
    qed
  qed
qed

lemma contains_kw_iff: "contains_kw rt d kw \<longleftrightarrow> str_includes (toLowerCase rt d) (js kw)"
  by (simp add: contains_kw_def str_includes_iff)

lemma ascii_isWhiteSpace_lower:
  "ascii_isWhiteSpace (if 65 \<le> u \<and> u \<le> 90 then u + 32 else u) = ascii_isWhiteSpace u"
  by (auto simp add: ascii_isWhiteSpace_def)

lemma ascii_toLowerCase_dropWhile:
  "dropWhile ascii_isWhiteSpace (ascii_toLowerCase s)
     = ascii_toLowerCase (dropWhile ascii_isWhiteSpace s)"
  by (induction s) (simp_all add: ascii_toLowerCase_def ascii_isWhiteSpace_lower)

lemma ascii_trim_toLowerCase: "ascii_trim (ascii_toLowerCase s) = ascii_toLowerCase (ascii_trim s)"
proof -
  have r: "rev (ascii_toLowerCase t) = ascii_toLowerCase (rev t)" for t
    by (simp add: ascii_toLowerCase_def rev_map)
  show ?thesis
    unfolding ascii_trim_def by (simp only: ascii_toLowerCase_dropWhile r)
qed

lemma is_ascii_toLowerCase: "is_ascii s \<Longrightarrow> is_ascii (ascii_toLowerCase s)"
  by (auto simp add: is_ascii_def ascii_toLowerCase_def)

lemma ecma_ascii_engine: "ecma_ascii ascii_engine"
  by (simp add: ecma_ascii_def ascii_engine_def)

lemma ascii_engine_sel:
  "toLowerCase ascii_engine = ascii_toLowerCase" "trim ascii_engine = ascii_trim"
  "parseInt ascii_engine = ascii_parseInt"
  "encodeURIComponent ascii_engine = ascii_encodeURIComponent"
  by (simp_all add: ascii_engine_def)

lemma cacheKey_ascii:
  "ecma_ascii rt \<Longrightarrow> is_ascii s \<Longrightarrow> cacheKey rt s = ascii_trim (ascii_toLowerCase s)"
  by (simp add: ecma_ascii_def cacheKey_def is_ascii_toLowerCase)

lemma ascii_key_Paris:
  "ascii_trim (ascii_toLowerCase (js ''Paris'')) = js ''paris''"
  "ascii_trim (ascii_toLowerCase (js '' paris '')) = js ''paris''"
  "ascii_trim (ascii_toLowerCase (js ''PARIS'')) = js ''paris''"
  by (simp_all add: js_def ascii_trim_def ascii_toLowerCase_def ascii_isWhiteSpace_def)

lemma cacheKey_Paris:
  assumes "ecma_ascii rt"
  shows "cacheKey rt (js ''Paris'') = js ''paris''"
    and "cacheKey rt (js '' paris '') = js ''paris''"
    and "cacheKey rt (js ''PARIS'') = js ''paris''"
  using assms by (simp_all add: cacheKey_ascii is_ascii_js_Paris ascii_key_Paris)

lemma icon_thunderstorms_ascii:
  "getWeatherIconFromDescription ascii_engine (js ''light thunderstorms with hail'') = ''11d''"
  by (simp add: getWeatherIconFromDescription_def ascii_engine_def js_def ascii_toLowerCase_def)

lemma icon_ascii:
  "ecma_ascii rt \<Longrightarrow> is_ascii d
     \<Longrightarrow> getWeatherIconFromDescription rt d = getWeatherIconFromDescription ascii_engine d"
  by (simp add: getWeatherIconFromDescription_def ecma_ascii_def ascii_engine_def)

lemma is_ascii_thunderstorms: "is_ascii (js ''light thunderstorms with hail'')"
  by (simp add: is_ascii_def js_def)

lemma toLowerCase_Sunny: "ascii_toLowerCase (js ''Sunny'') = js ''sunny''"
  by (simp add: ascii_toLowerCase_def js_def)

lemma icon_sunny: "getWeatherIconFromDescription ascii_engine (js ''sunny'') = ''01d''"
  by (simp add: getWeatherIconFromDescription_def ascii_engine_def js_def ascii_toLowerCase_def)

lemma parseInt_72: "ascii_parseInt (js ''72'') = Fin 72"
  by (simp add: ascii_parseInt_def js_def ascii_isWhiteSpace_def isRadixDigit_def digitValue_def
      digitsValue_def)

lemma parseInt_55: "ascii_parseInt (js ''55'') = Fin 55"
  by (simp add: ascii_parseInt_def js_def ascii_isWhiteSpace_def isRadixDigit_def digitValue_def
      digitsValue_def)

lemma parseInt_NA: "ascii_parseInt (js ''N/A'') = NaN"
  by (simp add: ascii_parseInt_def js_def ascii_isWhiteSpace_def isRadixDigit_def digitValue_def
      digitsValue_def)

lemma parseInt_high: "ascii_parseInt (js ''high'') = NaN"
  by (simp add: ascii_parseInt_def js_def ascii_isWhiteSpace_def isRadixDigit_def digitValue_def
      digitsValue_def)

lemma encode_Paris: "ascii_encodeURIComponent (js ''Paris'') = Inr (js ''Paris'')"
  by (simp add: ascii_encodeURIComponent_def is_ascii_def js_def percentEncode_def)

lemma encode_Paris_engine: "encodeURIComponent ascii_engine (js ''Paris'') = Inr (js ''Paris'')"
  by (simp add: ascii_engine_def encode_Paris)

lemma encode_lone_surrogate: "isl (encodeURIComponent ascii_engine [55296])"
  by (simp add: ascii_engine_def ascii_encodeURIComponent_def is_ascii_def)

subsection \<open>The helpers of adapter B on a finite number\<close>

text \<open>
  On a finite number, the value a weather code is, the two helpers as adapter B calls
  them are \<open>getWeatherDescription\<close> and \<open>getWeatherIconFromCode\<close> on that number.
\<close>

lemma getWeatherDescription_of_number:
  "getWeatherDescription_of rt (Number (Fin c)) = Inr (Text (js (getWeatherDescription c)))"
  by (simp add: getWeatherDescription_of_def)

lemma getWeatherIconFromCode_of_number:
  "getWeatherIconFromCode_of rt (Number (Fin c)) = Inr (getWeatherIconFromCode c)"
  by (simp add: getWeatherIconFromCode_of_def getWeatherIconFromCode_def ToNumber_def)

subsection \<open>The race and the two paths of the orchestrator\<close>

lemma first_fulfilled_rejected:
  "\<forall>a\<in>set order. isl (ps a) \<Longrightarrow> first_fulfilled order ps = None"
  by (induction order) (auto split: sum.splits)



lemma fetch_hit:
  "c (cacheKey (js_engine e) city) = Some entry
     \<Longrightarrow> now_at_check e - timestamp entry < CACHE_DURATION
     \<Longrightarrow> fetchWeatherData e c city
         = \<lparr> settled = Some (Inr (data entry)), cache_after = c, invoked = [] \<rparr>"
  by (simp add: fetchWeatherData_def)

lemma fetch_miss:
  "\<not> is_fresh e c city \<Longrightarrow>
   fetchWeatherData e c city =
     (case Promise_any (settle_order e) (promises (js_engine e) (net e) city) of
        None \<Rightarrow> \<lparr> settled = None, cache_after = c, invoked = [WeatherAPI, OpenMeteo, Wttr] \<rparr>
      | Some (Inr d) \<Rightarrow>
          \<lparr> settled = Some (Inr d),
            cache_after = c(cacheKey (js_engine e) city
                              \<mapsto> \<lparr> data = d, timestamp = now_at_store e \<rparr>),
            invoked = [WeatherAPI, OpenMeteo, Wttr] \<rparr>
      | Some (Inl err) \<Rightarrow>
          \<lparr> settled = Some (Inl (Error ''Unable to fetch weather data from any source'')),
            cache_after = c, invoked = [WeatherAPI, OpenMeteo, Wttr] \<rparr>)"
  by (auto simp add: fetchWeatherData_def is_fresh_def Let_def split: option.splits)

lemma invoked_not_fresh:
  "s \<in> set (invoked (fetchWeatherData e c city)) \<Longrightarrow> \<not> is_fresh e c city"
  by (auto simp add: fetchWeatherData_def is_fresh_def Let_def split: option.splits)

lemma invoked_miss:
  "\<not> is_fresh e c city \<Longrightarrow> invoked (fetchWeatherData e c city) = [WeatherAPI, OpenMeteo, Wttr]"
  by (simp add: fetch_miss split: option.splits sum.splits)

subsection \<open>Steps that throw, and the errors they throw\<close>

lemma bind_ok_Inr_iff: "bind_ok m k = Inr r \<longleftrightarrow> (\<exists>x. m = Inr x \<and> k x = Inr r)"
  by (cases m) simp_all

lemma bind_ok_Inl_iff: "bind_ok m k = Inl e \<longleftrightarrow> m = Inl e \<or> (\<exists>x. m = Inr x \<and> k x = Inl e)"
  by (cases m) simp_all

lemma isl_bind_ok: "isl (bind_ok m k) \<longleftrightarrow> isl m \<or> (\<exists>x. m = Inr x \<and> isl (k x))"
  by (cases m) simp_all

lemma isl_TypeError: "isl m \<Longrightarrow> (\<And>e. m = Inl e \<Longrightarrow> e = TypeError) \<Longrightarrow> m = Inl TypeError"
  by (cases m) simp_all

lemma get_prop_error: "get_prop v p = Inl e \<Longrightarrow> e = TypeError"
  by (simp add: get_prop_def split: jsval.splits)

lemma idx0_error: "idx0 v = Inl e \<Longrightarrow> e = TypeError"
  by (simp add: idx0_def split: jsval.splits)

lemma length_of_error: "length_of v = Inl e \<Longrightarrow> e = TypeError"
  by (simp add: length_of_def split: jsval.splits)

lemma path_error: "path v steps = Inl e \<Longrightarrow> e = TypeError"
  by (induction v steps rule: path.induct)
    (auto simp add: bind_ok_Inl_iff dest: get_prop_error idx0_error)

lemma join_error:
  "\<forall>x\<in>set xs. \<forall>e. x = Inl e \<longrightarrow> e = TypeError \<Longrightarrow> join xs = Inl e \<Longrightarrow> e = TypeError"
  by (induction xs rule: join.induct) (auto split: sum.splits)

lemma ToString_error: "ToString rt v = Inl e \<Longrightarrow> e = TypeError"
proof (induction rt v arbitrary: e rule: ToString.induct)
  case (6 rt xs)
  show ?case
  proof (rule join_error [OF _ "6.prems" [simplified]])
    show "\<forall>x\<in>set (map (\<lambda>x. if x = Undefined \<or> x = Null then Inr [] else ToString rt x) xs).
            \<forall>e. x = Inl e \<longrightarrow> e = TypeError"
      using "6.IH" by (auto split: if_splits)
  qed
qed (auto split: if_splits)

lemma ToNumber_error: "ToNumber rt v = Inl e \<Longrightarrow> e = TypeError"
  by (cases v)
    (auto simp add: ToNumber_def bind_ok_Inl_iff simp del: ToString.simps dest: ToString_error)

lemma call_toLowerCase_error: "call_toLowerCase rt v = Inl e \<Longrightarrow> e = TypeError"
  by (simp add: call_toLowerCase_def split: jsval.splits)

lemma getWeatherDescription_of_error: "getWeatherDescription_of rt v = Inl e \<Longrightarrow> e = TypeError"
  by (cases v)
    (auto simp add: getWeatherDescription_of_def bind_ok_Inl_iff simp del: ToString.simps
      dest: ToString_error)

lemma getWeatherIconFromCode_of_error: "getWeatherIconFromCode_of rt v = Inl e \<Longrightarrow> e = TypeError"
  by (auto simp add: getWeatherIconFromCode_of_def bind_ok_Inl_iff split: if_splits
      dest: ToNumber_error)

lemmas step_errors =
  get_prop_error idx0_error length_of_error path_error ToString_error ToNumber_error
  call_toLowerCase_error getWeatherDescription_of_error getWeatherIconFromCode_of_error

lemma read_text_Inr:
  "read_text d steps = Inr s \<longleftrightarrow> path d steps = Inr (Str s)"
proof (cases "path d steps")
  case (Inl e)
  then show ?thesis by (simp add: read_text_def)
next
  case (Inr v)
  then show ?thesis by (cases v) (auto simp add: read_text_def)
qed

lemma call_toLowerCase_Inr:
  "call_toLowerCase rt v = Inr s \<longleftrightarrow> (\<exists>t. v = Str t \<and> s = toLowerCase rt t)"
  by (auto simp add: call_toLowerCase_def split: jsval.splits)

lemma get_prop_same: "get_prop r p = Inr x \<Longrightarrow> \<exists>y. get_prop r p' = Inr y"
  by (cases r) (simp_all add: get_prop_def)

lemma truthy_length_of: "truthy rs \<Longrightarrow> \<exists>l. length_of rs = Inr l"
  by (cases rs) (simp_all add: truthy_def length_of_def)

subsection \<open>The adapters on a usable response\<close>

lemma encode_fails:
  assumes "isl (encodeURIComponent rt city)"
  shows "isl (fetchFromWeatherAPI rt nw city)" "isl (fetchFromOpenMeteo rt nw city)"
    "isl (fetchFromWttr rt nw city)"
  using assms
  by (cases "encodeURIComponent rt city";
      simp add: fetchFromWeatherAPI_def fetchFromOpenMeteo_def fetchFromWttr_def)+

lemma unusable_fails:
  assumes "encodeURIComponent rt city = Inr q"
  shows "unusable (weatherapi_current nw q) \<Longrightarrow> isl (fetchFromWeatherAPI rt nw city)"
    and "unusable (geocoding_search nw q) \<Longrightarrow> isl (fetchFromOpenMeteo rt nw city)"
    and "unusable (wttr_j1 nw q) \<Longrightarrow> isl (fetchFromWttr rt nw city)"
  using assms
  by (simp_all add: unusable_def fetchFromWeatherAPI_def fetchFromOpenMeteo_def
      fetchFromWttr_def split: response.splits option.splits)

lemma weatherapi_forward:
  assumes "encodeURIComponent rt city = Inr q"
    and "weatherapi_current nw q = Response True (Some d)"
    and "read_string rt d [Member ''location'', Member ''name''] = Inr s1"
    and "read_string rt d [Member ''location'', Member ''country''] = Inr s2"
    and "read_number rt d [Member ''current'', Member ''temp_f''] = Inr t"
    and "path d [Member ''current'', Member ''humidity''] = Inr h"
    and "read_text d [Member ''current'', Member ''condition'', Member ''text''] = Inr w"
  shows "fetchFromWeatherAPI rt nw city
           = Inr \<lparr> name = s1 @ js '', '' @ s2,
                   main = \<lparr> temp = Math_round t, humidity = h \<rparr>,
                   weather =
                     [\<lparr> description = Text (toLowerCase rt w),
                        icon = js (getWeatherIconFromDescription rt (toLowerCase rt w)) \<rparr>] \<rparr>"
  using assms
  by (auto simp add: fetchFromWeatherAPI_def read_string_def read_number_def read_text_Inr
      bind_ok_Inr_iff call_toLowerCase_def)

lemma weatherapi_Inl:
  assumes "encodeURIComponent rt city = Inr q"
    and "weatherapi_current nw q = Response True (Some d)"
    and "fetchFromWeatherAPI rt nw city = Inl e"
  shows "e = TypeError"
  using assms
  by (auto simp add: fetchFromWeatherAPI_def bind_ok_Inl_iff dest: step_errors)

lemma weatherapi_Inr:
  assumes "encodeURIComponent rt city = Inr q"
    and "weatherapi_current nw q = Response True (Some d)"
    and "fetchFromWeatherAPI rt nw city = Inr r"
  shows "\<not> isl (read_string rt d [Member ''location'', Member ''name''])
       \<and> \<not> isl (read_string rt d [Member ''location'', Member ''country''])
       \<and> \<not> isl (read_number rt d [Member ''current'', Member ''temp_f''])
       \<and> \<not> isl (path d [Member ''current'', Member ''humidity''])
       \<and> \<not> isl (read_text d [Member ''current'', Member ''condition'', Member ''text''])"
  using assms
  by (auto simp add: fetchFromWeatherAPI_def read_string_def read_number_def read_text_def
      bind_ok_Inr_iff call_toLowerCase_Inr)

lemma weatherapi_fail:
  assumes "encodeURIComponent rt city = Inr q"
    and "weatherapi_current nw q = Response True (Some d)"
    and "isl (read_string rt d [Member ''location'', Member ''name'']) \<or>
         isl (read_string rt d [Member ''location'', Member ''country'']) \<or>
         isl (read_number rt d [Member ''current'', Member ''temp_f'']) \<or>
         isl (path d [Member ''current'', Member ''humidity'']) \<or>
         isl (read_text d [Member ''current'', Member ''condition'', Member ''text''])"
  shows "fetchFromWeatherAPI rt nw city = Inl TypeError"
proof (cases "fetchFromWeatherAPI rt nw city")
  case (Inl e)
  then show ?thesis using weatherapi_Inl [OF assms(1,2)] by simp
next
  case (Inr r)
  then show ?thesis using weatherapi_Inr [OF assms(1,2)] assms(3) by blast
qed

lemma wttr_forward:
  assumes "encodeURIComponent rt city = Inr q"
    and "wttr_j1 nw q = Response True (Some d)"
    and "read_string rt d [Member ''nearest_area'', First, Member ''areaName'', First, Member ''value''] = Inr s1"
    and "read_string rt d [Member ''nearest_area'', First, Member ''country'', First, Member ''value''] = Inr s2"
    and "read_string rt d [Member ''current_condition'', First, Member ''temp_F''] = Inr ts"
    and "read_string rt d [Member ''current_condition'', First, Member ''humidity''] = Inr hs"
    and "read_text d [Member ''current_condition'', First, Member ''weatherDesc'', First, Member ''value''] = Inr w"
  shows "fetchFromWttr rt nw city
           = Inr \<lparr> name = s1 @ js '', '' @ s2,
                   main = \<lparr> temp = Math_round (parseInt rt ts),
                            humidity = Number (parseInt rt hs) \<rparr>,
                   weather =
                     [\<lparr> description = Text (toLowerCase rt w),
                        icon = js (getWeatherIconFromDescription rt (toLowerCase rt w)) \<rparr>] \<rparr>"
  using assms
  by (auto simp add: fetchFromWttr_def read_string_def read_text_Inr bind_ok_Inr_iff
      call_toLowerCase_def)

lemma wttr_Inl:
  assumes "encodeURIComponent rt city = Inr q"
    and "wttr_j1 nw q = Response True (Some d)"
    and "fetchFromWttr rt nw city = Inl e"
  shows "e = TypeError"
  using assms
  by (auto simp add: fetchFromWttr_def bind_ok_Inl_iff dest: step_errors)

lemma wttr_Inr:
  assumes "encodeURIComponent rt city = Inr q"
    and "wttr_j1 nw q = Response True (Some d)"
    and "fetchFromWttr rt nw city = Inr r"
  shows "\<not> isl (read_string rt d [Member ''nearest_area'', First, Member ''areaName'', First, Member ''value''])
       \<and> \<not> isl (read_string rt d [Member ''nearest_area'', First, Member ''country'', First, Member ''value''])
       \<and> \<not> isl (read_string rt d [Member ''current_condition'', First, Member ''temp_F''])
       \<and> \<not> isl (read_string rt d [Member ''current_condition'', First, Member ''humidity''])
       \<and> \<not> isl (read_text d [Member ''current_condition'', First, Member ''weatherDesc'', First, Member ''value''])"
  using assms
  by (auto simp add: fetchFromWttr_def read_string_def read_text_def bind_ok_Inr_iff
      call_toLowerCase_Inr)

lemma wttr_fail:
  assumes "encodeURIComponent rt city = Inr q"
    and "wttr_j1 nw q = Response True (Some d)"
    and "isl (read_string rt d [Member ''nearest_area'', First, Member ''areaName'', First, Member ''value'']) \<or>
         isl (read_string rt d [Member ''nearest_area'', First, Member ''country'', First, Member ''value'']) \<or>
         isl (read_string rt d [Member ''current_condition'', First, Member ''temp_F'']) \<or>
         isl (read_string rt d [Member ''current_condition'', First, Member ''humidity'']) \<or>
         isl (read_text d [Member ''current_condition'', First, Member ''weatherDesc'', First, Member ''value''])"
  shows "fetchFromWttr rt nw city = Inl TypeError"
proof (cases "fetchFromWttr rt nw city")
  case (Inl e)
  then show ?thesis using wttr_Inl [OF assms(1,2)] by simp
next
  case (Inr r)
  then show ?thesis using wttr_Inr [OF assms(1,2)] assms(3) by blast
qed

lemma openmeteo_not_found:
  assumes "encodeURIComponent rt city = Inr q"
    and "geocoding_search nw q = Response True (Some g)"
    and "path g [Member ''results''] = Inr rs"
    and "\<not> truthy rs \<or> length_of rs = Inr (Number (Fin 0))"
  shows "fetchFromOpenMeteo rt nw city = Inl (Error ''City not found'')"
  using assms
  by (auto simp add: fetchFromOpenMeteo_def bind_ok_Inr_iff)

lemma openmeteo_geo_Inl:
  assumes "encodeURIComponent rt city = Inr q"
    and "geocoding_search nw q = Response True (Some g)"
    and "isl (path g [Member ''results'']) \<or>
         (path g [Member ''results''] = Inr rs \<and> truthy rs \<and>
          length_of rs \<noteq> Inr (Number (Fin 0)) \<and>
          (isl (read_string rt rs [First, Member ''latitude'']) \<or>
           isl (read_string rt rs [First, Member ''longitude''])))"
  shows "fetchFromOpenMeteo rt nw city = Inl TypeError"
proof -
  have res: "fetchFromOpenMeteo rt nw city =
      bind_ok (get_prop g ''results'') (\<lambda>results.
        if \<not> truthy results then Inl (Error ''City not found'')
        else bind_ok (length_of results) (\<lambda>len.
          if len = Number (Fin 0) then Inl (Error ''City not found'')
          else bind_ok (idx0 results) (\<lambda>r.
            bind_ok (get_prop r ''latitude'') (\<lambda>latitude.
            bind_ok (get_prop r ''longitude'') (\<lambda>longitude.
            bind_ok (get_prop r ''name'') (\<lambda>rname.
            bind_ok (get_prop r ''country'') (\<lambda>country.
            bind_ok (ToString rt latitude) (\<lambda>lat.
            bind_ok (ToString rt longitude) (\<lambda>lon.
              fetchFromOpenMeteo rt nw city)))))))))"
    using assms(1,2)
    by (auto simp add: fetchFromOpenMeteo_def bind_ok_def split: sum.splits)
  from assms(3) show ?thesis
  proof
    assume "isl (path g [Member ''results''])"
    then obtain e where "get_prop g ''results'' = Inl e"
      by (cases "get_prop g ''results''") simp_all
    then show ?thesis
      using get_prop_error [of g "''results''" e] by (subst res) simp
  next
    assume h: "path g [Member ''results''] = Inr rs \<and> truthy rs \<and>
          length_of rs \<noteq> Inr (Number (Fin 0)) \<and>
          (isl (read_string rt rs [First, Member ''latitude'']) \<or>
           isl (read_string rt rs [First, Member ''longitude'']))"
    then have g: "get_prop g ''results'' = Inr rs" and t: "truthy rs"
      by (simp_all add: bind_ok_Inr_iff)
    from t h obtain l where l: "length_of rs = Inr l" "l \<noteq> Number (Fin 0)"
      using truthy_length_of [of rs] by auto
    show ?thesis
    proof (cases "idx0 rs")
      case (Inl e)
      then show ?thesis
        using idx0_error [of rs e] g t l by (subst res) simp
    next
      case r: (Inr r)
      show ?thesis
      proof (cases "get_prop r ''latitude''")
        case (Inl e)
        then show ?thesis
          using get_prop_error [of r "''latitude''" e] g t l r by (subst res) simp
      next
        case la: (Inr la)
        obtain lo where lo: "get_prop r ''longitude'' = Inr lo"
          using get_prop_same [OF la] by blast
        obtain rn where rn: "get_prop r ''name'' = Inr rn"
          using get_prop_same [OF la] by blast
        obtain co where co: "get_prop r ''country'' = Inr co"
          using get_prop_same [OF la] by blast
        from h r la lo have "isl (ToString rt la) \<or> isl (ToString rt lo)"
          by (simp add: read_string_def)
        then consider e where "ToString rt la = Inl e"
          | s e where "ToString rt la = Inr s" "ToString rt lo = Inl e"
          by (cases "ToString rt la"; cases "ToString rt lo") auto
        then show ?thesis
        proof cases
          case 1
          then show ?thesis
            using ToString_error [of rt la e] g t l r la lo rn co by (subst res) simp
        next
          case 2
          then show ?thesis
            using ToString_error [of rt lo e] g t l r la lo rn co by (subst res) simp
        qed
      qed
    qed
  qed
qed

lemma openmeteo_second:
  assumes "geocoded rt nw city rs la lo"
  shows "fetchFromOpenMeteo rt nw city =
     (case openmeteo_forecast nw la lo of
        NetworkError \<Rightarrow> Inl TypeError
      | Response weatherOk weatherBody \<Rightarrow>
          if \<not> weatherOk then Inl (Error ''Weather fetch failed'')
          else (case weatherBody of
                  None \<Rightarrow> Inl SyntaxError
                | Some w \<Rightarrow>
                    bind_ok (get_prop w ''current_weather'') (\<lambda>current.
                    bind_ok (read_string rt rs [First, Member ''name'']) (\<lambda>s1.
                    bind_ok (read_string rt rs [First, Member ''country'']) (\<lambda>s2.
                    bind_ok (get_prop current ''temperature'') (\<lambda>temperature.
                    bind_ok (ToNumber rt temperature) (\<lambda>t.
                    bind_ok (get_prop current ''weathercode'') (\<lambda>code.
                    bind_ok (getWeatherDescription_of rt code) (\<lambda>desc.
                    bind_ok (getWeatherIconFromCode_of rt code) (\<lambda>ic.
                      Inr \<lparr> name = s1 @ js '', '' @ s2,
                            main = \<lparr> temp = Math_round t, humidity = Number (Fin 65) \<rparr>,
                            weather = [\<lparr> description = desc, icon = js ic \<rparr>] \<rparr>))))))))))"
proof -
  from assms obtain q g where q: "encodeURIComponent rt city = Inr q"
    and g: "geocoding_search nw q = Response True (Some g)"
    and rs: "get_prop g ''results'' = Inr rs" and t: "truthy rs"
    and n0: "length_of rs \<noteq> Inr (Number (Fin 0))"
    and la: "read_string rt rs [First, Member ''latitude''] = Inr la"
    and lo: "read_string rt rs [First, Member ''longitude''] = Inr lo"
    by (auto simp add: geocoded_def bind_ok_Inr_iff)
  from t n0 obtain l where l: "length_of rs = Inr l" "l \<noteq> Number (Fin 0)"
    using truthy_length_of [of rs] by auto
  from la obtain r x where r: "idx0 rs = Inr r" and x: "get_prop r ''latitude'' = Inr x"
    and xs: "ToString rt x = Inr la"
    by (auto simp add: read_string_def bind_ok_Inr_iff)
  from lo r obtain y where y: "get_prop r ''longitude'' = Inr y" and ys: "ToString rt y = Inr lo"
    by (auto simp add: read_string_def bind_ok_Inr_iff)
  obtain rn where rn: "get_prop r ''name'' = Inr rn"
    using get_prop_same [OF x] by blast
  obtain co where co: "get_prop r ''country'' = Inr co"
    using get_prop_same [OF x] by blast
  show ?thesis
    by (simp add: fetchFromOpenMeteo_def q g rs t l r x y rn co xs ys read_string_def
        split: response.splits option.splits)
qed

lemma openmeteo_fc_unusable:
  "geocoded rt nw city rs la lo \<Longrightarrow> unusable (openmeteo_forecast nw la lo)
     \<Longrightarrow> isl (fetchFromOpenMeteo rt nw city)"
  by (simp add: openmeteo_second unusable_def split: response.splits option.splits)

lemma openmeteo_forward:
  assumes "geocoded rt nw city rs la lo"
    and "openmeteo_forecast nw la lo = Response True (Some w)"
    and "read_string rt rs [First, Member ''name''] = Inr s1"
    and "read_string rt rs [First, Member ''country''] = Inr s2"
    and "read_number rt w [Member ''current_weather'', Member ''temperature''] = Inr t"
    and "read_description rt w [Member ''current_weather'', Member ''weathercode''] = Inr desc"
    and "read_icon rt w [Member ''current_weather'', Member ''weathercode''] = Inr ic"
  shows "fetchFromOpenMeteo rt nw city
           = Inr \<lparr> name = s1 @ js '', '' @ s2,
                   main = \<lparr> temp = Math_round t, humidity = Number (Fin 65) \<rparr>,
                   weather = [\<lparr> description = desc, icon = js ic \<rparr>] \<rparr>"
  using assms(2-)
  by (auto simp add: openmeteo_second [OF assms(1)] read_number_def read_description_def
      read_icon_def bind_ok_Inr_iff)

lemma openmeteo_fc_Inl:
  assumes "geocoded rt nw city rs la lo"
    and "openmeteo_forecast nw la lo = Response True (Some w)"
    and "fetchFromOpenMeteo rt nw city = Inl e"
  shows "e = TypeError"
  using assms(2-)
  by (auto simp add: openmeteo_second [OF assms(1)] read_string_def bind_ok_Inl_iff
      dest: step_errors)

lemma openmeteo_fc_Inr:
  assumes "geocoded rt nw city rs la lo"
    and "openmeteo_forecast nw la lo = Response True (Some w)"
    and "fetchFromOpenMeteo rt nw city = Inr r"
  shows "\<not> isl (read_string rt rs [First, Member ''name''])
       \<and> \<not> isl (read_string rt rs [First, Member ''country''])
       \<and> \<not> isl (read_number rt w [Member ''current_weather'', Member ''temperature''])
       \<and> \<not> isl (read_description rt w [Member ''current_weather'', Member ''weathercode''])
       \<and> \<not> isl (read_icon rt w [Member ''current_weather'', Member ''weathercode''])"
  using assms(2-)
  by (auto simp add: openmeteo_second [OF assms(1)] read_number_def read_description_def
      read_icon_def bind_ok_Inr_iff)

lemma openmeteo_fc_fail:
  assumes "geocoded rt nw city rs la lo"
    and "openmeteo_forecast nw la lo = Response True (Some w)"
    and "isl (read_string rt rs [First, Member ''name'']) \<or>
         isl (read_string rt rs [First, Member ''country'']) \<or>
         isl (read_number rt w [Member ''current_weather'', Member ''temperature'']) \<or>
         isl (read_description rt w [Member ''current_weather'', Member ''weathercode'']) \<or>
         isl (read_icon rt w [Member ''current_weather'', Member ''weathercode''])"
  shows "fetchFromOpenMeteo rt nw city = Inl TypeError"
proof (cases "fetchFromOpenMeteo rt nw city")
  case (Inl e)
  then show ?thesis using openmeteo_fc_Inl [OF assms(1,2)] by simp
next
  case (Inr r)
  then show ?thesis using openmeteo_fc_Inr [OF assms(1,2)] assms(3) by blast
qed

subsection \<open>The example networks and bodies\<close>

lemma promises_net_down: "isl (promises rt net_down city s)"
  by (cases s; cases "encodeURIComponent rt city")
    (simp_all add: promises_def fetchFromWeatherAPI_def fetchFromOpenMeteo_def
      fetchFromWttr_def net_down_def)

lemma wttr_paris_paths:
  "path (wttr_paris t h) [Member ''current_condition'', First]
     = Inr (Obj [(js ''temp_F'', Str (js t)), (js ''humidity'', Str (js h)),
                 (js ''weatherDesc'', Arr [Obj [(js ''value'', Str (js ''Sunny''))]])])"
  "path (wttr_paris t h) [Member ''nearest_area'', First]
     = Inr (Obj [(js ''areaName'', Arr [Obj [(js ''value'', Str (js ''Paris''))]]),
                 (js ''country'', Arr [Obj [(js ''value'', Str (js ''France''))]])])"
  by (simp_all add: wttr_paris_def get_prop_def idx0_def)

lemma fetchFromWttr_wttr_only:
  "fetchFromWttr ascii_engine (net_wttr_only t h) (js ''Paris'') =
     Inr \<lparr> name = js ''Paris, France'',
           main = \<lparr> temp = Math_round (ascii_parseInt (js t)),
                    humidity = Number (ascii_parseInt (js h)) \<rparr>,
           weather = [\<lparr> description = Text (js ''sunny''), icon = js ''01d'' \<rparr>] \<rparr>"
proof -
  have e: "encodeURIComponent ascii_engine (js ''Paris'') = Inr (js ''Paris'')"
    by (simp add: ascii_engine_def encode_Paris)
  have l: "toLowerCase ascii_engine (js ''Sunny'') = js ''sunny''"
    by (simp add: ascii_engine_def toLowerCase_Sunny)
  have p: "parseInt ascii_engine = ascii_parseInt"
    by (simp add: ascii_engine_def)
  show ?thesis
    by (simp add: fetchFromWttr_def e net_wttr_only_def wttr_paris_def get_prop_def idx0_def
        call_toLowerCase_def l p icon_sunny js_append [symmetric])
qed

lemma promises_wttr_only_Wttr:
  "promises ascii_engine (net_wttr_only ''72'' ''55'') (js ''Paris'') Wttr = Inr paris_report"
  by (simp add: promises_def fetchFromWttr_wttr_only parseInt_72 parseInt_55 paris_report_def
      floor_eq_iff)


lemma reads_weatherapi_no_current:
  "isl (read_number ascii_engine weatherapi_no_current [Member ''current'', Member ''temp_f''])"
  by (simp add: read_number_def weatherapi_no_current_def get_prop_def)

lemma reads_weatherapi_paris:
  "read_string ascii_engine weatherapi_paris [Member ''location'', Member ''name''] = Inr (js ''Paris'')"
  "read_string ascii_engine weatherapi_paris [Member ''location'', Member ''country''] = Inr (js ''France'')"
  "read_number ascii_engine weatherapi_paris [Member ''current'', Member ''temp_f''] = Inr (Fin (145 / 2))"
  "path weatherapi_paris [Member ''current'', Member ''humidity''] = Inr (Number (Fin 55))"
  "read_text weatherapi_paris [Member ''current'', Member ''condition'', Member ''text''] = Inr (js ''Sunny'')"
  by (simp_all add: read_string_def read_number_def read_text_def weatherapi_paris_def
      get_prop_def ToNumber_def)

lemma reads_wttr_no_description:
  "isl (read_text wttr_no_description
          [Member ''current_condition'', First, Member ''weatherDesc'', First, Member ''value''])"
  by (simp add: read_text_def wttr_no_description_def get_prop_def idx0_def)

lemma reads_wttr_paris:
  "read_string ascii_engine (wttr_paris t h)
     [Member ''nearest_area'', First, Member ''areaName'', First, Member ''value''] = Inr (js ''Paris'')"
  "read_string ascii_engine (wttr_paris t h)
     [Member ''nearest_area'', First, Member ''country'', First, Member ''value''] = Inr (js ''France'')"
  "read_string ascii_engine (wttr_paris t h)
     [Member ''current_condition'', First, Member ''temp_F''] = Inr (js t)"
  "read_string ascii_engine (wttr_paris t h)
     [Member ''current_condition'', First, Member ''humidity''] = Inr (js h)"
  "read_text (wttr_paris t h)
     [Member ''current_condition'', First, Member ''weatherDesc'', First, Member ''value''] = Inr (js ''Sunny'')"
  by (simp_all add: read_string_def read_text_def wttr_paris_def get_prop_def idx0_def)

lemma geocoded_paris:
  "geocoded ascii_engine (net_openmeteo geocoding_paris forecast_paris) (js ''Paris'')
     (Arr [Obj [(js ''latitude'', Number (Fin 49)), (js ''longitude'', Number (Fin 2)),
                (js ''name'', Str (js ''Paris'')), (js ''country'', Str (js ''France''))]])
     (NumberToString ascii_engine (Fin 49)) (NumberToString ascii_engine (Fin 2))"
  unfolding geocoded_def
  by (rule exI [of _ "js ''Paris''"], rule exI [of _ geocoding_paris])
    (simp add: encode_Paris_engine net_openmeteo_def geocoding_paris_def get_prop_def idx0_def
      truthy_def length_of_def read_string_def)

lemma reads_forecast_paris:
  "read_string ascii_engine
     (Arr [Obj [(js ''latitude'', Number (Fin 49)), (js ''longitude'', Number (Fin 2)),
                (js ''name'', Str (js ''Paris'')), (js ''country'', Str (js ''France''))]])
     [First, Member ''name''] = Inr (js ''Paris'')"
  "read_string ascii_engine
     (Arr [Obj [(js ''latitude'', Number (Fin 49)), (js ''longitude'', Number (Fin 2)),
                (js ''name'', Str (js ''Paris'')), (js ''country'', Str (js ''France''))]])
     [First, Member ''country''] = Inr (js ''France'')"
  "read_number ascii_engine forecast_paris [Member ''current_weather'', Member ''temperature'']
     = Inr (Fin (143 / 2))"
  "read_description ascii_engine forecast_paris [Member ''current_weather'', Member ''weathercode'']
     = Inr (Text (js ''slight rain''))"
  "read_icon ascii_engine forecast_paris [Member ''current_weather'', Member ''weathercode'']
     = Inr ''10d''"
  by (simp_all add: read_string_def read_number_def read_description_def read_icon_def
      forecast_paris_def get_prop_def idx0_def ToNumber_def getWeatherDescription_of_def
      getWeatherIconFromCode_of_def getWeatherDescription_def descriptions_def)

section \<open>The orchestrator: cache hit, failure, success\<close>

text \<open>
  C1. For every query and every engine: when the cache holds an entry under the query's
  key, \<open>city.toLowerCase().trim()\<close> as the engine computes it, whose age at the check is
  below ten minutes, \<open>fetchWeatherData\<close> resolves to that entry's report, starts no
  adapter (so no request leaves), and leaves the cache as it was.
\<close>

theorem fresh_cache_hit:
  assumes "c (cacheKey (js_engine e) city) = Some entry"
    and "now_at_check e - timestamp entry < 10 * 60 * 1000"
  shows "fetchWeatherData e c city
         = \<lparr> settled = Some (Inr (data entry)), cache_after = c, invoked = [] \<rparr>"
  using assms by (simp add: fetch_hit CACHE_DURATION_def)

theorem fresh_cache_hit_witness:
  "[js ''paris'' \<mapsto> \<lparr> data = paris_report, timestamp = 1000 \<rparr>]
     (cacheKey (js_engine \<lparr> js_engine = ascii_engine, net = net_down, settle_order = [],
                            now_at_check = 600999, now_at_store = 0 \<rparr>) (js '' paris ''))
     = Some \<lparr> data = paris_report, timestamp = 1000 \<rparr> \<and>
   now_at_check \<lparr> js_engine = ascii_engine, net = net_down, settle_order = [],
                  now_at_check = 600999, now_at_store = 0 \<rparr>
     - timestamp \<lparr> data = paris_report, timestamp = 1000 \<rparr> < 10 * 60 * 1000 \<and>
   fetchWeatherData \<lparr> js_engine = ascii_engine, net = net_down, settle_order = [],
                      now_at_check = 600999, now_at_store = 0 \<rparr>
       [js ''paris'' \<mapsto> \<lparr> data = paris_report, timestamp = 1000 \<rparr>] (js '' paris '')
     = \<lparr> settled = Some (Inr paris_report),
         cache_after = [js ''paris'' \<mapsto> \<lparr> data = paris_report, timestamp = 1000 \<rparr>],
         invoked = [] \<rparr>"
proof -
  let ?e = "\<lparr> js_engine = ascii_engine, net = net_down, settle_order = [],
              now_at_check = 600999, now_at_store = 0 \<rparr>"
  let ?entry = "\<lparr> data = paris_report, timestamp = 1000 \<rparr>"
  have h1: "[js ''paris'' \<mapsto> ?entry] (cacheKey (js_engine ?e) (js '' paris '')) = Some ?entry"
    by (simp add: cacheKey_Paris [OF ecma_ascii_engine])
  have h2: "now_at_check ?e - timestamp ?entry < 10 * 60 * 1000"
    by simp
  show ?thesis
    using fresh_cache_hit [of "[js ''paris'' \<mapsto> ?entry]" ?e "js '' paris ''" ?entry, OF h1 h2]
      h1 h2
    by simp
qed

text \<open>
  C2. When all three adapters fail in a call, the call rejects with the one error
  \<open>Unable to fetch weather data from any source\<close>, which carries nothing of the
  adapters' own errors, and the cache is what it was before the call; so is the entry
  under the query's key, absent or stale.
\<close>

theorem all_adapters_fail:
  assumes "adapter_fails e c city WeatherAPI"
    and "adapter_fails e c city OpenMeteo"
    and "adapter_fails e c city Wttr"
  shows "settled (fetchWeatherData e c city)
           = Some (Inl (Error ''Unable to fetch weather data from any source'')) \<and>
         cache_after (fetchWeatherData e c city) = c \<and>
         cache_after (fetchWeatherData e c city) (cacheKey (js_engine e) city)
           = c (cacheKey (js_engine e) city)"
proof -
  have nf: "\<not> is_fresh e c city"
    using assms(1) by (auto simp add: adapter_fails_def dest: invoked_not_fresh)
  have all: "isl (promises (js_engine e) (net e) city a)" for a
    using assms by (cases a) (simp_all add: adapter_fails_def)
  have none: "first_fulfilled (settle_order e) (promises (js_engine e) (net e) city) = None"
    by (rule first_fulfilled_rejected) (simp add: all)
  have "Promise_any (settle_order e) (promises (js_engine e) (net e) city)
          = Some (Inl AggregateError)"
    using assms none by (simp add: Promise_any_def adapter_fails_def)
  then show ?thesis
    by (simp add: fetch_miss [OF nf])
qed

theorem all_adapters_fail_witness:
  "adapter_fails \<lparr> js_engine = ascii_engine, net = net_down,
                   settle_order = [Wttr, WeatherAPI, OpenMeteo],
                   now_at_check = 600000, now_at_store = 600500 \<rparr>
     [js ''paris'' \<mapsto> \<lparr> data = paris_report, timestamp = 0 \<rparr>] (js ''Paris'') WeatherAPI \<and>
   adapter_fails \<lparr> js_engine = ascii_engine, net = net_down,
                   settle_order = [Wttr, WeatherAPI, OpenMeteo],
                   now_at_check = 600000, now_at_store = 600500 \<rparr>
     [js ''paris'' \<mapsto> \<lparr> data = paris_report, timestamp = 0 \<rparr>] (js ''Paris'') OpenMeteo \<and>
   adapter_fails \<lparr> js_engine = ascii_engine, net = net_down,
                   settle_order = [Wttr, WeatherAPI, OpenMeteo],
                   now_at_check = 600000, now_at_store = 600500 \<rparr>
     [js ''paris'' \<mapsto> \<lparr> data = paris_report, timestamp = 0 \<rparr>] (js ''Paris'') Wttr \<and>
   settled (fetchWeatherData \<lparr> js_engine = ascii_engine, net = net_down,
                               settle_order = [Wttr, WeatherAPI, OpenMeteo],
                               now_at_check = 600000, now_at_store = 600500 \<rparr>
              [js ''paris'' \<mapsto> \<lparr> data = paris_report, timestamp = 0 \<rparr>] (js ''Paris''))
     = Some (Inl (Error ''Unable to fetch weather data from any source'')) \<and>
   cache_after (fetchWeatherData \<lparr> js_engine = ascii_engine, net = net_down,
                                   settle_order = [Wttr, WeatherAPI, OpenMeteo],
                                   now_at_check = 600000, now_at_store = 600500 \<rparr>
                  [js ''paris'' \<mapsto> \<lparr> data = paris_report, timestamp = 0 \<rparr>] (js ''Paris''))
     = [js ''paris'' \<mapsto> \<lparr> data = paris_report, timestamp = 0 \<rparr>]"
proof -
  let ?e = "\<lparr> js_engine = ascii_engine, net = net_down,
              settle_order = [Wttr, WeatherAPI, OpenMeteo],
              now_at_check = 600000, now_at_store = 600500 \<rparr>"
  let ?c = "[js ''paris'' \<mapsto> \<lparr> data = paris_report, timestamp = 0 \<rparr>]"
  have nf: "\<not> is_fresh ?e ?c (js ''Paris'')"
    by (simp add: is_fresh_def cacheKey_Paris [OF ecma_ascii_engine] CACHE_DURATION_def)
  have f: "adapter_fails ?e ?c (js ''Paris'') s" for s
    by (cases s) (simp_all add: adapter_fails_def invoked_miss [OF nf] promises_net_down)
  show ?thesis
    using all_adapters_fail [OF f f f] f by simp
qed



section \<open>Adapter B: weather code to description and icon\<close>

text \<open>
  C4. For every numeric weather code, \<open>getWeatherDescription\<close> returns the value of the
  table: 0 clear sky, 1 mainly clear, 2 partly cloudy, 3 overcast, 45 fog, 48 depositing
  rime fog, 51 light drizzle, 53 moderate drizzle, 55 dense drizzle, 61 slight rain,
  63 moderate rain, 65 heavy rain, 71 slight snow, 73 moderate snow, 75 heavy snow,
  95 thunderstorm, 96 thunderstorm with hail, 99 thunderstorm with heavy hail; and it
  returns clear sky for every code that is not in the table.
\<close>

theorem getWeatherDescription_table:
  "getWeatherDescription 0 = ''clear sky'' \<and>
   getWeatherDescription 1 = ''mainly clear'' \<and>
   getWeatherDescription 2 = ''partly cloudy'' \<and>
   getWeatherDescription 3 = ''overcast'' \<and>
   getWeatherDescription 45 = ''fog'' \<and>
   getWeatherDescription 48 = ''depositing rime fog'' \<and>
   getWeatherDescription 51 = ''light drizzle'' \<and>
   getWeatherDescription 53 = ''moderate drizzle'' \<and>
   getWeatherDescription 55 = ''dense drizzle'' \<and>
   getWeatherDescription 61 = ''slight rain'' \<and>
   getWeatherDescription 63 = ''moderate rain'' \<and>
   getWeatherDescription 65 = ''heavy rain'' \<and>
   getWeatherDescription 71 = ''slight snow'' \<and>
   getWeatherDescription 73 = ''moderate snow'' \<and>
   getWeatherDescription 75 = ''heavy snow'' \<and>
   getWeatherDescription 95 = ''thunderstorm'' \<and>
   getWeatherDescription 96 = ''thunderstorm with hail'' \<and>
   getWeatherDescription 99 = ''thunderstorm with heavy hail'' \<and>
   (code \<notin> {0, 1, 2, 3, 45, 48, 51, 53, 55, 61, 63, 65, 71, 73, 75, 95, 96, 99}
      \<longrightarrow> getWeatherDescription code = ''clear sky'')"
  by (simp add: getWeatherDescription_def descriptions_def)

theorem getWeatherDescription_table_witness:
  "(4::rat) \<notin> {0, 1, 2, 3, 45, 48, 51, 53, 55, 61, 63, 65, 71, 73, 75, 95, 96, 99}
   \<and> getWeatherDescription 4 = ''clear sky''
   \<and> getWeatherDescription 48 = ''depositing rime fog''"
  using getWeatherDescription_table [of 4] by simp

text \<open>
  C5, as the specification states it: code 61 gives slight rain and the rain icon
  \<open>10d\<close>, code 3 gives overcast and the partly-cloudy icon \<open>02d\<close>, and the unlisted code
  999 gives clear sky and the clear-day icon \<open>01d\<close>. The last part fails: 999 is at
  least 95, so the icon function answers with the thunderstorm icon \<open>11d\<close>.
\<close>

theorem adapter_B_code_999_icon:
  "getWeatherIconFromCode 999 = ''11d'' \<and> getWeatherIconFromCode 999 \<noteq> ''01d''"
  by (simp add: getWeatherIconFromCode_def)

text \<open>
  C5, amended: code 61 gives slight rain and the rain icon \<open>10d\<close>; code 3 gives overcast
  and the partly-cloudy icon \<open>02d\<close>; the unlisted code 999 gives clear sky and, being at
  least 95, the thunderstorm icon \<open>11d\<close>.
\<close>

theorem adapter_B_test_codes:
  "getWeatherDescription 61 = ''slight rain'' \<and> getWeatherIconFromCode 61 = ''10d'' \<and>
   getWeatherDescription 3 = ''overcast'' \<and> getWeatherIconFromCode 3 = ''02d'' \<and>
   getWeatherDescription 999 = ''clear sky'' \<and> getWeatherIconFromCode 999 = ''11d''"
  by (simp add: getWeatherDescription_def descriptions_def getWeatherIconFromCode_def)

text \<open>
  C6, as the specification states it: the icon function is the bucket rule
  \<open>spec_icon_bucket\<close>, whose second bucket is the interval from 1 to 3 and whose default
  is the clear-day icon. The code tests \<open>code \<le> 3\<close> with no lower bound, so a code below
  zero lands in the partly-cloudy bucket, where the rule gives the default.
\<close>

theorem icon_bucket_negative_code:
  "getWeatherIconFromCode (- 1) = ''02d'' \<and> spec_icon_bucket (- 1) = ''01d''"
  by (simp add: getWeatherIconFromCode_def spec_icon_bucket_def)

text \<open>
  C6, amended: for every numeric weather code the first matching bucket wins, in this
  order: code 0 gives the clear-day icon; any other code of at most 3 gives the
  partly-cloudy-day icon; 45 to 48 the mist icon; 51 to 55 the shower icon; 61 to 65 the
  rain icon; 71 to 75 the snow icon; 95 and above the thunderstorm icon; every other code
  the clear-day icon. For code 0 and every code from 1 up this is the rule of the
  specification, second bucket the interval from 1 to 3.
\<close>

theorem getWeatherIconFromCode_buckets:
  "(code = 0 \<longrightarrow> getWeatherIconFromCode code = ''01d'') \<and>
   (code \<noteq> 0 \<and> code \<le> 3 \<longrightarrow> getWeatherIconFromCode code = ''02d'') \<and>
   (45 \<le> code \<and> code \<le> 48 \<longrightarrow> getWeatherIconFromCode code = ''50d'') \<and>
   (51 \<le> code \<and> code \<le> 55 \<longrightarrow> getWeatherIconFromCode code = ''09d'') \<and>
   (61 \<le> code \<and> code \<le> 65 \<longrightarrow> getWeatherIconFromCode code = ''10d'') \<and>
   (71 \<le> code \<and> code \<le> 75 \<longrightarrow> getWeatherIconFromCode code = ''13d'') \<and>
   (95 \<le> code \<longrightarrow> getWeatherIconFromCode code = ''11d'') \<and>
   (3 < code \<and> code < 45 \<or> 48 < code \<and> code < 51 \<or> 55 < code \<and> code < 61 \<or>
    65 < code \<and> code < 71 \<or> 75 < code \<and> code < 95
      \<longrightarrow> getWeatherIconFromCode code = ''01d'') \<and>
   (code = 0 \<or> 1 \<le> code \<longrightarrow> getWeatherIconFromCode code = spec_icon_bucket code)"
  by (simp add: getWeatherIconFromCode_def spec_icon_bucket_def)

theorem getWeatherIconFromCode_buckets_witness:
  "getWeatherIconFromCode 0 = ''01d'' \<and>
   (- 7 \<noteq> (0::rat) \<and> - 7 \<le> (3::rat)) \<and> getWeatherIconFromCode (- 7) = ''02d'' \<and>
   ((1::rat) \<le> 2 \<and> getWeatherIconFromCode 2 = ''02d'' \<and> spec_icon_bucket 2 = ''02d'') \<and>
   ((45::rat) \<le> 46 \<and> (46::rat) \<le> 48 \<and> getWeatherIconFromCode 46 = ''50d'') \<and>
   ((51::rat) \<le> 53 \<and> (53::rat) \<le> 55 \<and> getWeatherIconFromCode 53 = ''09d'') \<and>
   ((61::rat) \<le> 63 \<and> (63::rat) \<le> 65 \<and> getWeatherIconFromCode 63 = ''10d'') \<and>
   ((71::rat) \<le> 75 \<and> (75::rat) \<le> 75 \<and> getWeatherIconFromCode 75 = ''13d'') \<and>
   ((95::rat) \<le> 96 \<and> getWeatherIconFromCode 96 = ''11d'') \<and>
   ((75::rat) < 80 \<and> (80::rat) < 95 \<and> getWeatherIconFromCode 80 = ''01d'')"
  using getWeatherIconFromCode_buckets [of 0] getWeatherIconFromCode_buckets [of "- 7"]
    getWeatherIconFromCode_buckets [of 2] getWeatherIconFromCode_buckets [of 46]
    getWeatherIconFromCode_buckets [of 53] getWeatherIconFromCode_buckets [of 63]
    getWeatherIconFromCode_buckets [of 75] getWeatherIconFromCode_buckets [of 96]
    getWeatherIconFromCode_buckets [of 80]
  by (simp add: spec_icon_bucket_def)

section \<open>Adapters A and C: keyword to icon\<close>

text \<open>
  C7, as the specification states it, ends with: a description that contains both
  \<open>cloud\<close> and \<open>rain\<close> gives the cloud icon \<open>03d\<close>. That fails when the
  description also contains \<open>clear\<close> or \<open>sunny\<close>, which are tested first.
\<close>

theorem cloud_and_rain_after_sunny:
  "str_includes (toLowerCase ascii_engine (js ''Sunny, cloud and rain later'')) (js ''cloud'') \<and>
   str_includes (toLowerCase ascii_engine (js ''Sunny, cloud and rain later'')) (js ''rain'') \<and>
   getWeatherIconFromDescription ascii_engine (js ''Sunny, cloud and rain later'') = ''01d''"
  by (simp add: getWeatherIconFromDescription_def ascii_engine_def js_def ascii_toLowerCase_def)

text \<open>
  C7, amended: for every description and every engine the keyword rule works on the
  lower-cased description and takes the first match in this order: \<open>clear\<close> or
  \<open>sunny\<close> gives \<open>01d\<close> (clear day); \<open>cloud\<close> gives \<open>03d\<close> (scattered clouds
  day); \<open>rain\<close> or \<open>drizzle\<close> gives \<open>10d\<close> (rain day); \<open>thunder\<close> gives
  \<open>11d\<close> (thunderstorm day); \<open>snow\<close> gives \<open>13d\<close> (snow day); \<open>mist\<close> or
  \<open>fog\<close> gives \<open>50d\<close> (mist day); anything else gives \<open>01d\<close>. Two descriptions
  with the same lower-cased text get the same icon. In particular
  \<open>light thunderstorms with hail\<close> gives the thunderstorm icon, and a description that
  contains both \<open>cloud\<close> and \<open>rain\<close>, and neither \<open>clear\<close> nor \<open>sunny\<close>, gives
  the cloud icon.
\<close>

theorem keyword_icon_rule:
  "(contains_kw rt d ''clear'' \<or> contains_kw rt d ''sunny''
      \<longrightarrow> getWeatherIconFromDescription rt d = ''01d'') \<and>
   (\<not> contains_kw rt d ''clear'' \<and> \<not> contains_kw rt d ''sunny'' \<and> contains_kw rt d ''cloud''
      \<longrightarrow> getWeatherIconFromDescription rt d = ''03d'') \<and>
   (\<not> contains_kw rt d ''clear'' \<and> \<not> contains_kw rt d ''sunny'' \<and>
    \<not> contains_kw rt d ''cloud'' \<and>
    (contains_kw rt d ''rain'' \<or> contains_kw rt d ''drizzle'')
      \<longrightarrow> getWeatherIconFromDescription rt d = ''10d'') \<and>
   (\<not> contains_kw rt d ''clear'' \<and> \<not> contains_kw rt d ''sunny'' \<and>
    \<not> contains_kw rt d ''cloud'' \<and> \<not> contains_kw rt d ''rain'' \<and>
    \<not> contains_kw rt d ''drizzle'' \<and> contains_kw rt d ''thunder''
      \<longrightarrow> getWeatherIconFromDescription rt d = ''11d'') \<and>
   (\<not> contains_kw rt d ''clear'' \<and> \<not> contains_kw rt d ''sunny'' \<and>
    \<not> contains_kw rt d ''cloud'' \<and> \<not> contains_kw rt d ''rain'' \<and>
    \<not> contains_kw rt d ''drizzle'' \<and> \<not> contains_kw rt d ''thunder'' \<and>
    contains_kw rt d ''snow''
      \<longrightarrow> getWeatherIconFromDescription rt d = ''13d'') \<and>
   (\<not> contains_kw rt d ''clear'' \<and> \<not> contains_kw rt d ''sunny'' \<and>
    \<not> contains_kw rt d ''cloud'' \<and> \<not> contains_kw rt d ''rain'' \<and>
    \<not> contains_kw rt d ''drizzle'' \<and> \<not> contains_kw rt d ''thunder'' \<and>
    \<not> contains_kw rt d ''snow'' \<and> (contains_kw rt d ''mist'' \<or> contains_kw rt d ''fog'')
      \<longrightarrow> getWeatherIconFromDescription rt d = ''50d'') \<and>
   (\<not> contains_kw rt d ''clear'' \<and> \<not> contains_kw rt d ''sunny'' \<and>
    \<not> contains_kw rt d ''cloud'' \<and> \<not> contains_kw rt d ''rain'' \<and>
    \<not> contains_kw rt d ''drizzle'' \<and> \<not> contains_kw rt d ''thunder'' \<and>
    \<not> contains_kw rt d ''snow'' \<and> \<not> contains_kw rt d ''mist'' \<and>
    \<not> contains_kw rt d ''fog''
      \<longrightarrow> getWeatherIconFromDescription rt d = ''01d'') \<and>
   (toLowerCase rt d = toLowerCase rt d'
      \<longrightarrow> getWeatherIconFromDescription rt d = getWeatherIconFromDescription rt d') \<and>
   (ecma_ascii rt
      \<longrightarrow> getWeatherIconFromDescription rt (js ''light thunderstorms with hail'') = ''11d'') \<and>
   (contains_kw rt d ''cloud'' \<and> contains_kw rt d ''rain'' \<and>
    \<not> contains_kw rt d ''clear'' \<and> \<not> contains_kw rt d ''sunny''
      \<longrightarrow> getWeatherIconFromDescription rt d = ''03d'')"
proof -
  define cl where "cl = str_includes (toLowerCase rt d) (js ''clear'')"
  define su where "su = str_includes (toLowerCase rt d) (js ''sunny'')"
  define co where "co = str_includes (toLowerCase rt d) (js ''cloud'')"
  define ra where "ra = str_includes (toLowerCase rt d) (js ''rain'')"
  define dr where "dr = str_includes (toLowerCase rt d) (js ''drizzle'')"
  define th where "th = str_includes (toLowerCase rt d) (js ''thunder'')"
  define sn where "sn = str_includes (toLowerCase rt d) (js ''snow'')"
  define mi where "mi = str_includes (toLowerCase rt d) (js ''mist'')"
  define fo where "fo = str_includes (toLowerCase rt d) (js ''fog'')"
  have g: "getWeatherIconFromDescription rt d =
     (if cl \<or> su then ''01d'' else if co then ''03d'' else if ra \<or> dr then ''10d''
      else if th then ''11d'' else if sn then ''13d'' else if mi \<or> fo then ''50d'' else ''01d'')"
    by (simp only: getWeatherIconFromDescription_def Let_def cl_def su_def co_def ra_def
        dr_def th_def sn_def mi_def fo_def)
  have k: "contains_kw rt d ''clear'' = cl" "contains_kw rt d ''sunny'' = su"
    "contains_kw rt d ''cloud'' = co" "contains_kw rt d ''rain'' = ra"
    "contains_kw rt d ''drizzle'' = dr" "contains_kw rt d ''thunder'' = th"
    "contains_kw rt d ''snow'' = sn" "contains_kw rt d ''mist'' = mi"
    "contains_kw rt d ''fog'' = fo"
    by (simp_all only: contains_kw_iff cl_def su_def co_def ra_def dr_def th_def sn_def
        mi_def fo_def)
  have ex: "ecma_ascii rt
      \<longrightarrow> getWeatherIconFromDescription rt (js ''light thunderstorms with hail'') = ''11d''"
    by (simp add: icon_ascii is_ascii_thunderstorms icon_thunderstorms_ascii)
  have ci: "toLowerCase rt d = toLowerCase rt d'
      \<longrightarrow> getWeatherIconFromDescription rt d = getWeatherIconFromDescription rt d'"
    by (simp add: getWeatherIconFromDescription_def)
  have b1: "cl \<or> su \<longrightarrow> getWeatherIconFromDescription rt d = ''01d''"
    by (simp only: g) simp
  have b2: "\<not> cl \<and> \<not> su \<and> co \<longrightarrow> getWeatherIconFromDescription rt d = ''03d''"
    by (simp only: g) simp
  have b3: "\<not> cl \<and> \<not> su \<and> \<not> co \<and> (ra \<or> dr)
      \<longrightarrow> getWeatherIconFromDescription rt d = ''10d''"
    by (simp only: g) simp
  have b4: "\<not> cl \<and> \<not> su \<and> \<not> co \<and> \<not> ra \<and> \<not> dr \<and> th
      \<longrightarrow> getWeatherIconFromDescription rt d = ''11d''"
    by (simp only: g) simp
  have b5: "\<not> cl \<and> \<not> su \<and> \<not> co \<and> \<not> ra \<and> \<not> dr \<and> \<not> th \<and> sn
      \<longrightarrow> getWeatherIconFromDescription rt d = ''13d''"
    by (simp only: g) simp
  have b6: "\<not> cl \<and> \<not> su \<and> \<not> co \<and> \<not> ra \<and> \<not> dr \<and> \<not> th \<and> \<not> sn \<and> (mi \<or> fo)
      \<longrightarrow> getWeatherIconFromDescription rt d = ''50d''"
    by (simp only: g) simp
  have b7: "\<not> cl \<and> \<not> su \<and> \<not> co \<and> \<not> ra \<and> \<not> dr \<and> \<not> th \<and> \<not> sn \<and> \<not> mi \<and> \<not> fo
      \<longrightarrow> getWeatherIconFromDescription rt d = ''01d''"
    by (simp only: g) simp
  have b8: "co \<and> ra \<and> \<not> cl \<and> \<not> su \<longrightarrow> getWeatherIconFromDescription rt d = ''03d''"
    by (simp only: g) simp
  show ?thesis
    unfolding k using b1 b2 b3 b4 b5 b6 b7 b8 ex ci by (simp only: simp_thms)
qed

theorem keyword_icon_rule_witness:
  "(\<not> contains_kw ascii_engine (js ''Patchy RAIN possible'') ''clear'' \<and>
    \<not> contains_kw ascii_engine (js ''Patchy RAIN possible'') ''sunny'' \<and>
    \<not> contains_kw ascii_engine (js ''Patchy RAIN possible'') ''cloud'' \<and>
    contains_kw ascii_engine (js ''Patchy RAIN possible'') ''rain'') \<and>
   getWeatherIconFromDescription ascii_engine (js ''Patchy RAIN possible'') = ''10d'' \<and>
   (contains_kw ascii_engine (js ''Partly Cloudy, light rain'') ''cloud'' \<and>
    contains_kw ascii_engine (js ''Partly Cloudy, light rain'') ''rain'' \<and>
    \<not> contains_kw ascii_engine (js ''Partly Cloudy, light rain'') ''clear'' \<and>
    \<not> contains_kw ascii_engine (js ''Partly Cloudy, light rain'') ''sunny'') \<and>
   getWeatherIconFromDescription ascii_engine (js ''Partly Cloudy, light rain'') = ''03d'' \<and>
   toLowerCase ascii_engine (js ''PARTLY cloudy, Light Rain'')
     = toLowerCase ascii_engine (js ''Partly Cloudy, light rain'') \<and>
   getWeatherIconFromDescription ascii_engine (js ''PARTLY cloudy, Light Rain'') = ''03d'' \<and>
   ecma_ascii ascii_engine \<and>
   getWeatherIconFromDescription ascii_engine (js ''light thunderstorms with hail'') = ''11d''"
proof -
  have lx: "toLowerCase ascii_engine (js ''Patchy RAIN possible'') = js ''patchy rain possible''"
    by (simp add: ascii_engine_def ascii_toLowerCase_def js_def)
  have ly: "toLowerCase ascii_engine (js ''Partly Cloudy, light rain'')
              = js ''partly cloudy, light rain''"
    by (simp add: ascii_engine_def ascii_toLowerCase_def js_def)
  have lz: "toLowerCase ascii_engine (js ''PARTLY cloudy, Light Rain'')
              = js ''partly cloudy, light rain''"
    by (simp add: ascii_engine_def ascii_toLowerCase_def js_def)
  have p: "\<not> contains_kw ascii_engine (js ''Patchy RAIN possible'') ''clear''"
    "\<not> contains_kw ascii_engine (js ''Patchy RAIN possible'') ''sunny''"
    "\<not> contains_kw ascii_engine (js ''Patchy RAIN possible'') ''cloud''"
    "contains_kw ascii_engine (js ''Patchy RAIN possible'') ''rain''"
    unfolding contains_kw_iff lx by (simp_all add: js_def)
  have q: "contains_kw ascii_engine (js ''Partly Cloudy, light rain'') ''cloud''"
    "contains_kw ascii_engine (js ''Partly Cloudy, light rain'') ''rain''"
    "\<not> contains_kw ascii_engine (js ''Partly Cloudy, light rain'') ''clear''"
    "\<not> contains_kw ascii_engine (js ''Partly Cloudy, light rain'') ''sunny''"
    unfolding contains_kw_iff ly by (simp_all add: js_def)
  have l: "toLowerCase ascii_engine (js ''PARTLY cloudy, Light Rain'')
             = toLowerCase ascii_engine (js ''Partly Cloudy, light rain'')"
    by (simp only: ly lz)
  note T = keyword_icon_rule
  have r1: "getWeatherIconFromDescription ascii_engine (js ''Patchy RAIN possible'') = ''10d''"
    using p T [where rt = ascii_engine and d = "js ''Patchy RAIN possible''"]
    by (simp only: simp_thms)
  have r2: "getWeatherIconFromDescription ascii_engine (js ''Partly Cloudy, light rain'') = ''03d''"
    using q T [where rt = ascii_engine and d = "js ''Partly Cloudy, light rain''"]
    by (simp only: simp_thms)
  have r3: "getWeatherIconFromDescription ascii_engine (js ''PARTLY cloudy, Light Rain'')
            = getWeatherIconFromDescription ascii_engine (js ''Partly Cloudy, light rain'')"
    using l T [where rt = ascii_engine and d = "js ''PARTLY cloudy, Light Rain''"
        and d' = "js ''Partly Cloudy, light rain''"]
    by (simp only: simp_thms)
  have r4: "getWeatherIconFromDescription ascii_engine (js ''light thunderstorms with hail'')
            = ''11d''"
    using ecma_ascii_engine T [where rt = ascii_engine] by (simp only: simp_thms)
  show ?thesis
    using p q l r1 r2 r3 r4 ecma_ascii_engine by (simp only: simp_thms)
qed

section \<open>The cache key\<close>

text \<open>
  C8. For every engine, two queries that are equal after lower-casing and trimming (in
  the order of the script, or in the other order when the two commute) have the same
  cache key and so share one cache entry: when the entry is fresh a call for either reads
  it and the two calls give the same result, and the entry that a successful call for one
  writes is the entry that a call for the other within the next ten minutes returns, with
  no adapter started. In particular \<open>Paris\<close>, \<open> paris \<close> and \<open>PARIS\<close> have the same
  key.
\<close>

theorem same_key_same_entry:
  "(js_engine e = rt \<and> js_engine e' = rt \<and>
    (trim rt (toLowerCase rt q1) = trim rt (toLowerCase rt q2) \<or>
     (\<forall>s. trim rt (toLowerCase rt s) = toLowerCase rt (trim rt s)) \<and>
     toLowerCase rt (trim rt q1) = toLowerCase rt (trim rt q2))
      \<longrightarrow> cacheKey rt q1 = cacheKey rt q2 \<and>
          (is_fresh e c q1 \<longrightarrow> fetchWeatherData e c q2 = fetchWeatherData e c q1) \<and>
          (\<not> is_fresh e c q1 \<and> settled (fetchWeatherData e c q1) = Some (Inr r) \<and>
           now_at_check e' - now_at_store e < CACHE_DURATION
             \<longrightarrow> fetchWeatherData e' (cache_after (fetchWeatherData e c q1)) q2
                 = \<lparr> settled = Some (Inr r),
                     cache_after = cache_after (fetchWeatherData e c q1),
                     invoked = [] \<rparr>)) \<and>
   (ecma_ascii rt
      \<longrightarrow> cacheKey rt (js ''Paris'') = cacheKey rt (js '' paris '') \<and>
          cacheKey rt (js '' paris '') = cacheKey rt (js ''PARIS''))"
proof -
  have ex: "ecma_ascii rt
      \<longrightarrow> cacheKey rt (js ''Paris'') = cacheKey rt (js '' paris '') \<and>
          cacheKey rt (js '' paris '') = cacheKey rt (js ''PARIS'')"
    by (simp add: cacheKey_Paris)
  have main: "cacheKey rt q1 = cacheKey rt q2 \<and>
          (is_fresh e c q1 \<longrightarrow> fetchWeatherData e c q2 = fetchWeatherData e c q1) \<and>
          (\<not> is_fresh e c q1 \<and> settled (fetchWeatherData e c q1) = Some (Inr r) \<and>
           now_at_check e' - now_at_store e < CACHE_DURATION
             \<longrightarrow> fetchWeatherData e' (cache_after (fetchWeatherData e c q1)) q2
                 = \<lparr> settled = Some (Inr r),
                     cache_after = cache_after (fetchWeatherData e c q1),
                     invoked = [] \<rparr>)"
    if h: "js_engine e = rt \<and> js_engine e' = rt \<and>
    (trim rt (toLowerCase rt q1) = trim rt (toLowerCase rt q2) \<or>
     (\<forall>s. trim rt (toLowerCase rt s) = toLowerCase rt (trim rt s)) \<and>
     toLowerCase rt (trim rt q1) = toLowerCase rt (trim rt q2))"
  proof -
    from h have e: "js_engine e = rt" and e': "js_engine e' = rt"
      by simp_all
    from h have key: "cacheKey rt q1 = cacheKey rt q2"
      by (auto simp add: cacheKey_def)
    have rd: "fetchWeatherData e c q2 = fetchWeatherData e c q1" if "is_fresh e c q1"
      using that key e
      by (auto simp add: fetchWeatherData_def is_fresh_def Let_def split: option.splits)
    have wr: "fetchWeatherData e' (cache_after (fetchWeatherData e c q1)) q2
                 = \<lparr> settled = Some (Inr r),
                     cache_after = cache_after (fetchWeatherData e c q1),
                     invoked = [] \<rparr>"
      if nf: "\<not> is_fresh e c q1" and st: "settled (fetchWeatherData e c q1) = Some (Inr r)"
        and age: "now_at_check e' - now_at_store e < CACHE_DURATION"
    proof -
      have ca: "cache_after (fetchWeatherData e c q1)
                  = c(cacheKey rt q1 \<mapsto> \<lparr> data = r, timestamp = now_at_store e \<rparr>)"
        using st e by (auto simp add: fetch_miss [OF nf] split: option.splits sum.splits)
      have look: "cache_after (fetchWeatherData e c q1) (cacheKey (js_engine e') q2)
                  = Some \<lparr> data = r, timestamp = now_at_store e \<rparr>"
        by (simp add: ca key e')
      show ?thesis
        using fetch_hit [of "cache_after (fetchWeatherData e c q1)" e' q2
            "\<lparr> data = r, timestamp = now_at_store e \<rparr>"] look age
        by simp
    qed
    show ?thesis
      using key rd wr by blast
  qed
  show ?thesis
    using main ex by blast
qed

theorem same_key_same_entry_witness:
  "trim ascii_engine (toLowerCase ascii_engine (js ''PARIS''))
     = trim ascii_engine (toLowerCase ascii_engine (js '' paris '')) \<and>
   ecma_ascii ascii_engine \<and>
   cacheKey ascii_engine (js ''Paris'') = cacheKey ascii_engine (js '' paris '') \<and>
   cacheKey ascii_engine (js '' paris '') = cacheKey ascii_engine (js ''PARIS'') \<and>
   \<not> is_fresh \<lparr> js_engine = ascii_engine, net = net_wttr_only ''72'' ''55'',
                 settle_order = [Wttr], now_at_check = 10, now_at_store = 25 \<rparr>
       Map.empty (js ''Paris'') \<and>
   settled (fetchWeatherData \<lparr> js_engine = ascii_engine, net = net_wttr_only ''72'' ''55'',
                               settle_order = [Wttr], now_at_check = 10, now_at_store = 25 \<rparr>
              Map.empty (js ''Paris''))
     = Some (Inr paris_report) \<and>
   fetchWeatherData \<lparr> js_engine = ascii_engine, net = net_down, settle_order = [],
                      now_at_check = 600024, now_at_store = 0 \<rparr>
       (cache_after (fetchWeatherData \<lparr> js_engine = ascii_engine,
                                        net = net_wttr_only ''72'' ''55'',
                                        settle_order = [Wttr], now_at_check = 10,
                                        now_at_store = 25 \<rparr>
                       Map.empty (js ''Paris'')))
       (js '' paris '')
     = \<lparr> settled = Some (Inr paris_report),
         cache_after = [js ''paris'' \<mapsto> \<lparr> data = paris_report, timestamp = 25 \<rparr>],
         invoked = [] \<rparr>"
proof -
  let ?e = "\<lparr> js_engine = ascii_engine, net = net_wttr_only ''72'' ''55'',
              settle_order = [Wttr], now_at_check = 10, now_at_store = 25 \<rparr>"
  let ?e' = "\<lparr> js_engine = ascii_engine, net = net_down, settle_order = [],
               now_at_check = 600024, now_at_store = 0 \<rparr>"
  note kp = cacheKey_Paris [OF ecma_ascii_engine]
  have k: "trim ascii_engine (toLowerCase ascii_engine (js ''Paris''))
             = trim ascii_engine (toLowerCase ascii_engine (js '' paris ''))"
    and k2: "trim ascii_engine (toLowerCase ascii_engine (js ''PARIS''))
             = trim ascii_engine (toLowerCase ascii_engine (js '' paris ''))"
    using kp by (simp_all only: cacheKey_def)
  have nf: "\<not> is_fresh ?e Map.empty (js ''Paris'')"
    by (simp add: is_fresh_def)
  have pa: "Promise_any [Wttr] (promises ascii_engine (net_wttr_only ''72'' ''55'') (js ''Paris''))
              = Some (Inr paris_report)"
    by (simp add: Promise_any_def promises_wttr_only_Wttr)
  have run: "fetchWeatherData ?e Map.empty (js ''Paris'')
       = \<lparr> settled = Some (Inr paris_report),
           cache_after = [js ''paris'' \<mapsto> \<lparr> data = paris_report, timestamp = 25 \<rparr>],
           invoked = [WeatherAPI, OpenMeteo, Wttr] \<rparr>"
    by (simp add: fetch_miss [OF nf] pa kp)
  have st: "settled (fetchWeatherData ?e Map.empty (js ''Paris'')) = Some (Inr paris_report)"
    by (simp add: run)
  have age: "now_at_check ?e' - now_at_store ?e < CACHE_DURATION"
    by (simp add: CACHE_DURATION_def)
  have hyp: "js_engine ?e = ascii_engine \<and> js_engine ?e' = ascii_engine \<and>
    (trim ascii_engine (toLowerCase ascii_engine (js ''Paris''))
       = trim ascii_engine (toLowerCase ascii_engine (js '' paris '')) \<or>
     (\<forall>s. trim ascii_engine (toLowerCase ascii_engine s)
            = toLowerCase ascii_engine (trim ascii_engine s)) \<and>
     toLowerCase ascii_engine (trim ascii_engine (js ''Paris''))
       = toLowerCase ascii_engine (trim ascii_engine (js '' paris '')))"
    using k by simp
  note inst = same_key_same_entry
      [of ?e ascii_engine ?e' "js ''Paris''" "js '' paris ''" Map.empty paris_report]
  have wr: "fetchWeatherData ?e' (cache_after (fetchWeatherData ?e Map.empty (js ''Paris'')))
              (js '' paris '')
          = \<lparr> settled = Some (Inr paris_report),
              cache_after = cache_after (fetchWeatherData ?e Map.empty (js ''Paris'')),
              invoked = [] \<rparr>"
    using inst [THEN conjunct1, THEN mp, OF hyp] nf st age by (simp only: simp_thms)
  have ks: "cacheKey ascii_engine (js ''Paris'') = cacheKey ascii_engine (js '' paris '') \<and>
   cacheKey ascii_engine (js '' paris '') = cacheKey ascii_engine (js ''PARIS'')"
    using inst [THEN conjunct2, THEN mp, OF ecma_ascii_engine] .
  show ?thesis
    using k2 ecma_ascii_engine ks nf st wr by (simp add: run)
qed

section \<open>Adapter failures\<close>

text \<open>
  C9, as the specification states it: an adapter fails whenever the response cannot be
  parsed into the report, and adapter C fails when its \<open>temp_F\<close> or \<open>humidity\<close>
  string is not an integer. The script has no such check: \<open>parseInt\<close> yields \<open>NaN\<close>
  and adapter C returns a report that carries it.
\<close>

theorem wttr_unparseable_values:
  "parseInt ascii_engine (js ''N/A'') = NaN \<and>
   fetchFromWttr ascii_engine (net_wttr_only ''N/A'' ''55'') (js ''Paris'')
     = Inr \<lparr> name = js ''Paris, France'',
             main = \<lparr> temp = NaN, humidity = Number (Fin 55) \<rparr>,
             weather = [\<lparr> description = Text (js ''sunny''), icon = js ''01d'' \<rparr>] \<rparr> \<and>
   parseInt ascii_engine (js ''high'') = NaN \<and>
   fetchFromWttr ascii_engine (net_wttr_only ''72'' ''high'') (js ''Paris'')
     = Inr \<lparr> name = js ''Paris, France'',
             main = \<lparr> temp = Fin 72, humidity = Number NaN \<rparr>,
             weather = [\<lparr> description = Text (js ''sunny''), icon = js ''01d'' \<rparr>] \<rparr>"
  by (simp add: fetchFromWttr_wttr_only parseInt_NA parseInt_high parseInt_72 parseInt_55
      floor_eq_iff ascii_engine_sel)

text \<open>
  C9, amended: every adapter fails when the query cannot be encoded, when a response it
  needs is unusable (the transport failed, the status is not a success, or the body is
  not JSON), and when the decoded body cannot be read into the report: a value on the way
  to a field it reads is \<open>undefined\<close> or \<open>null\<close> (a missing object, an empty array),
  the condition text of adapters A and C is not a string, or a value cannot be converted
  to a string or a number at all. Adapter B also fails, with \<open>City not found\<close>, when
  the geocoding result list is missing or empty. In every other case the adapter returns
  the report built from the fields. So field values are not validated: when its
  \<open>temp_F\<close> or \<open>humidity\<close> string is not parseable as an integer, adapter C returns a
  report whose temperature or humidity is \<open>NaN\<close>.
\<close>

theorem adapters_fail_on_unreadable_responses:
  "(isl (encodeURIComponent rt city)
      \<longrightarrow> isl (fetchFromWeatherAPI rt nw city) \<and> isl (fetchFromOpenMeteo rt nw city) \<and>
          isl (fetchFromWttr rt nw city)) \<and>
   (encodeURIComponent rt city = Inr q \<longrightarrow>
      (unusable (weatherapi_current nw q) \<longrightarrow> isl (fetchFromWeatherAPI rt nw city)) \<and>
      (unusable (geocoding_search nw q) \<longrightarrow> isl (fetchFromOpenMeteo rt nw city)) \<and>
      (unusable (wttr_j1 nw q) \<longrightarrow> isl (fetchFromWttr rt nw city)) \<and>
      (weatherapi_current nw q = Response True (Some da) \<longrightarrow>
         (isl (read_string rt da [Member ''location'', Member ''name'']) \<or>
          isl (read_string rt da [Member ''location'', Member ''country'']) \<or>
          isl (read_number rt da [Member ''current'', Member ''temp_f'']) \<or>
          isl (path da [Member ''current'', Member ''humidity'']) \<or>
          isl (read_text da [Member ''current'', Member ''condition'', Member ''text''])
            \<longrightarrow> fetchFromWeatherAPI rt nw city = Inl TypeError) \<and>
         (read_string rt da [Member ''location'', Member ''name''] = Inr a1 \<and>
          read_string rt da [Member ''location'', Member ''country''] = Inr a2 \<and>
          read_number rt da [Member ''current'', Member ''temp_f''] = Inr atemp \<and>
          path da [Member ''current'', Member ''humidity''] = Inr ah \<and>
          read_text da [Member ''current'', Member ''condition'', Member ''text''] = Inr aw
            \<longrightarrow> fetchFromWeatherAPI rt nw city
                = Inr \<lparr> name = a1 @ js '', '' @ a2,
                        main = \<lparr> temp = Math_round atemp, humidity = ah \<rparr>,
                        weather =
                          [\<lparr> description = Text (toLowerCase rt aw),
                             icon = js (getWeatherIconFromDescription rt (toLowerCase rt aw)) \<rparr>] \<rparr>)) \<and>
      (geocoding_search nw q = Response True (Some g) \<longrightarrow>
         (isl (path g [Member ''results'']) \<longrightarrow> fetchFromOpenMeteo rt nw city = Inl TypeError) \<and>
         (path g [Member ''results''] = Inr rs0 \<and>
          (\<not> truthy rs0 \<or> length_of rs0 = Inr (Number (Fin 0)))
            \<longrightarrow> fetchFromOpenMeteo rt nw city = Inl (Error ''City not found'')) \<and>
         (path g [Member ''results''] = Inr rs0 \<and> truthy rs0 \<and>
          length_of rs0 \<noteq> Inr (Number (Fin 0)) \<and>
          (isl (read_string rt rs0 [First, Member ''latitude'']) \<or>
           isl (read_string rt rs0 [First, Member ''longitude'']))
            \<longrightarrow> fetchFromOpenMeteo rt nw city = Inl TypeError)) \<and>
      (wttr_j1 nw q = Response True (Some dc) \<longrightarrow>
         (isl (read_string rt dc [Member ''nearest_area'', First, Member ''areaName'', First, Member ''value'']) \<or>
          isl (read_string rt dc [Member ''nearest_area'', First, Member ''country'', First, Member ''value'']) \<or>
          isl (read_string rt dc [Member ''current_condition'', First, Member ''temp_F'']) \<or>
          isl (read_string rt dc [Member ''current_condition'', First, Member ''humidity'']) \<or>
          isl (read_text dc [Member ''current_condition'', First, Member ''weatherDesc'', First, Member ''value''])
            \<longrightarrow> fetchFromWttr rt nw city = Inl TypeError) \<and>
         (read_string rt dc [Member ''nearest_area'', First, Member ''areaName'', First, Member ''value''] = Inr c1 \<and>
          read_string rt dc [Member ''nearest_area'', First, Member ''country'', First, Member ''value''] = Inr c2 \<and>
          read_string rt dc [Member ''current_condition'', First, Member ''temp_F''] = Inr ct \<and>
          read_string rt dc [Member ''current_condition'', First, Member ''humidity''] = Inr ch \<and>
          read_text dc [Member ''current_condition'', First, Member ''weatherDesc'', First, Member ''value''] = Inr cw
            \<longrightarrow> fetchFromWttr rt nw city
                = Inr \<lparr> name = c1 @ js '', '' @ c2,
                        main = \<lparr> temp = Math_round (parseInt rt ct),
                                 humidity = Number (parseInt rt ch) \<rparr>,
                        weather =
                          [\<lparr> description = Text (toLowerCase rt cw),
                             icon = js (getWeatherIconFromDescription rt (toLowerCase rt cw)) \<rparr>] \<rparr>))) \<and>
   (geocoded rt nw city rs la lo \<longrightarrow>
      (unusable (openmeteo_forecast nw la lo) \<longrightarrow> isl (fetchFromOpenMeteo rt nw city)) \<and>
      (openmeteo_forecast nw la lo = Response True (Some w) \<longrightarrow>
         (isl (read_string rt rs [First, Member ''name'']) \<or>
          isl (read_string rt rs [First, Member ''country'']) \<or>
          isl (read_number rt w [Member ''current_weather'', Member ''temperature'']) \<or>
          isl (read_description rt w [Member ''current_weather'', Member ''weathercode'']) \<or>
          isl (read_icon rt w [Member ''current_weather'', Member ''weathercode''])
            \<longrightarrow> fetchFromOpenMeteo rt nw city = Inl TypeError) \<and>
         (read_string rt rs [First, Member ''name''] = Inr b1 \<and>
          read_string rt rs [First, Member ''country''] = Inr b2 \<and>
          read_number rt w [Member ''current_weather'', Member ''temperature''] = Inr bt \<and>
          read_description rt w [Member ''current_weather'', Member ''weathercode''] = Inr bd \<and>
          read_icon rt w [Member ''current_weather'', Member ''weathercode''] = Inr bi
            \<longrightarrow> fetchFromOpenMeteo rt nw city
                = Inr \<lparr> name = b1 @ js '', '' @ b2,
                        main = \<lparr> temp = Math_round bt, humidity = Number (Fin 65) \<rparr>,
                        weather = [\<lparr> description = bd, icon = js bi \<rparr>] \<rparr>))) \<and>
   Math_round NaN = NaN"
  apply (intro conjI impI)
  subgoal by (rule encode_fails)
  subgoal by (rule encode_fails)
  subgoal by (rule encode_fails)
  subgoal by (rule unusable_fails)
  subgoal by (rule unusable_fails)
  subgoal by (rule unusable_fails)
  subgoal by (rule weatherapi_fail)
  subgoal by (elim conjE) (rule weatherapi_forward)
  subgoal by (rule openmeteo_geo_Inl, assumption, assumption, rule disjI1, assumption)
  subgoal by (elim conjE) (rule openmeteo_not_found)
  subgoal by (rule openmeteo_geo_Inl, assumption, assumption, rule disjI2, assumption)
  subgoal by (rule wttr_fail)
  subgoal by (elim conjE) (rule wttr_forward)
  subgoal by (rule openmeteo_fc_unusable)
  subgoal by (rule openmeteo_fc_fail)
  subgoal by (elim conjE) (rule openmeteo_forward)
  subgoal by simp
  done

theorem adapters_fail_on_unreadable_responses_witness:
  "(isl (encodeURIComponent ascii_engine [55296]) \<and>
    isl (fetchFromWeatherAPI ascii_engine net_down [55296]) \<and>
    isl (fetchFromOpenMeteo ascii_engine net_down [55296]) \<and>
    isl (fetchFromWttr ascii_engine net_down [55296])) \<and>
   (encodeURIComponent ascii_engine (js ''Paris'') = Inr (js ''Paris'') \<and>
    unusable (weatherapi_current net_down (js ''Paris'')) \<and>
    unusable (geocoding_search net_down (js ''Paris'')) \<and>
    unusable (wttr_j1 net_down (js ''Paris'')) \<and>
    isl (fetchFromWeatherAPI ascii_engine net_down (js ''Paris'')) \<and>
    isl (fetchFromOpenMeteo ascii_engine net_down (js ''Paris'')) \<and>
    isl (fetchFromWttr ascii_engine net_down (js ''Paris''))) \<and>
   (isl (read_number ascii_engine weatherapi_no_current [Member ''current'', Member ''temp_f'']) \<and>
    fetchFromWeatherAPI ascii_engine (net_weatherapi weatherapi_no_current) (js ''Paris'')
      = Inl TypeError) \<and>
   fetchFromWeatherAPI ascii_engine (net_weatherapi weatherapi_paris) (js ''Paris'')
     = Inr \<lparr> name = js ''Paris, France'',
             main = \<lparr> temp = Fin 73, humidity = Number (Fin 55) \<rparr>,
             weather = [\<lparr> description = Text (js ''sunny''), icon = js ''01d'' \<rparr>] \<rparr> \<and>
   fetchFromOpenMeteo ascii_engine (net_openmeteo geocoding_empty forecast_paris) (js ''Paris'')
     = Inl (Error ''City not found'') \<and>
   fetchFromOpenMeteo ascii_engine (net_openmeteo geocoding_paris forecast_paris) (js ''Paris'')
     = Inr \<lparr> name = js ''Paris, France'',
             main = \<lparr> temp = Fin 72, humidity = Number (Fin 65) \<rparr>,
             weather = [\<lparr> description = Text (js ''slight rain''), icon = js ''10d'' \<rparr>] \<rparr> \<and>
   (isl (read_text wttr_no_description
           [Member ''current_condition'', First, Member ''weatherDesc'', First, Member ''value'']) \<and>
    fetchFromWttr ascii_engine (net_wttr wttr_no_description) (js ''Paris'') = Inl TypeError) \<and>
   (parseInt ascii_engine (js ''N/A'') = NaN \<and>
    fetchFromWttr ascii_engine (net_wttr (wttr_paris ''N/A'' ''55'')) (js ''Paris'')
      = Inr \<lparr> name = js ''Paris, France'',
              main = \<lparr> temp = NaN, humidity = Number (Fin 55) \<rparr>,
              weather = [\<lparr> description = Text (js ''sunny''), icon = js ''01d'' \<rparr>] \<rparr>)"
proof -
  note T = adapters_fail_on_unreadable_responses
  note enc = encode_Paris_engine
  have p1: "isl (fetchFromWeatherAPI ascii_engine net_down [55296]) \<and>
            isl (fetchFromOpenMeteo ascii_engine net_down [55296]) \<and>
            isl (fetchFromWttr ascii_engine net_down [55296])"
    using T [where rt = ascii_engine and city = "[55296]" and nw = net_down,
        THEN conjunct1, THEN mp, OF encode_lone_surrogate] .
  have u: "unusable (weatherapi_current net_down (js ''Paris''))"
    "unusable (geocoding_search net_down (js ''Paris''))"
    "unusable (wttr_j1 net_down (js ''Paris''))"
    by (simp_all add: unusable_def net_down_def)
  have p2: "isl (fetchFromWeatherAPI ascii_engine net_down (js ''Paris''))"
    using T [where rt = ascii_engine and city = "js ''Paris''" and q = "js ''Paris''"
        and nw = net_down, THEN conjunct2, THEN conjunct1, THEN mp, OF enc,
        THEN conjunct1, THEN mp, OF u(1)] .
  have p3: "isl (fetchFromOpenMeteo ascii_engine net_down (js ''Paris''))"
    using T [where rt = ascii_engine and city = "js ''Paris''" and q = "js ''Paris''"
        and nw = net_down, THEN conjunct2, THEN conjunct1, THEN mp, OF enc,
        THEN conjunct2, THEN conjunct1, THEN mp, OF u(2)] .
  have p4: "isl (fetchFromWttr ascii_engine net_down (js ''Paris''))"
    using T [where rt = ascii_engine and city = "js ''Paris''" and q = "js ''Paris''"
        and nw = net_down, THEN conjunct2, THEN conjunct1, THEN mp, OF enc,
        THEN conjunct2, THEN conjunct2, THEN conjunct1, THEN mp, OF u(3)] .
  have ra: "weatherapi_current (net_weatherapi b) (js ''Paris'') = Response True (Some b)" for b
    by (simp add: net_weatherapi_def)
  have p5: "fetchFromWeatherAPI ascii_engine (net_weatherapi weatherapi_no_current) (js ''Paris'')
              = Inl TypeError"
    using reads_weatherapi_no_current
      T [where rt = ascii_engine and city = "js ''Paris''" and q = "js ''Paris''"
        and nw = "net_weatherapi weatherapi_no_current" and da = weatherapi_no_current,
        THEN conjunct2, THEN conjunct1, THEN mp, OF enc,
        THEN conjunct2, THEN conjunct2, THEN conjunct2, THEN conjunct1, THEN mp, OF ra,
        THEN conjunct1]
    by (simp only: simp_thms)
  have p6: "fetchFromWeatherAPI ascii_engine (net_weatherapi weatherapi_paris) (js ''Paris'')
     = Inr \<lparr> name = js ''Paris, France'',
             main = \<lparr> temp = Fin 73, humidity = Number (Fin 55) \<rparr>,
             weather = [\<lparr> description = Text (js ''sunny''), icon = js ''01d'' \<rparr>] \<rparr>"
    using T [where rt = ascii_engine and city = "js ''Paris''" and q = "js ''Paris''"
        and nw = "net_weatherapi weatherapi_paris" and da = weatherapi_paris,
        THEN conjunct2, THEN conjunct1, THEN mp, OF enc,
        THEN conjunct2, THEN conjunct2, THEN conjunct2, THEN conjunct1, THEN mp, OF ra,
        THEN conjunct2, THEN mp,
        OF conjI [OF reads_weatherapi_paris(1) conjI [OF reads_weatherapi_paris(2)
          conjI [OF reads_weatherapi_paris(3) conjI [OF reads_weatherapi_paris(4)
            reads_weatherapi_paris(5)]]]]]
    by (simp add: ascii_engine_sel toLowerCase_Sunny icon_sunny floor_eq_iff js_append [symmetric])
  have rg: "geocoding_search (net_openmeteo g w) (js ''Paris'') = Response True (Some g)" for g w
    by (simp add: net_openmeteo_def)
  have h7: "path geocoding_empty [Member ''results''] = Inr (Arr []) \<and>
            (\<not> truthy (Arr []) \<or> length_of (Arr []) = Inr (Number (Fin 0)))"
    by (simp add: geocoding_empty_def get_prop_def length_of_def)
  have p7: "fetchFromOpenMeteo ascii_engine (net_openmeteo geocoding_empty forecast_paris)
              (js ''Paris'') = Inl (Error ''City not found'')"
    using T [where rt = ascii_engine and city = "js ''Paris''" and q = "js ''Paris''"
        and nw = "net_openmeteo geocoding_empty forecast_paris" and g = geocoding_empty
        and ?rs0.0 = "Arr []",
        THEN conjunct2, THEN conjunct1, THEN mp, OF enc,
        THEN conjunct2, THEN conjunct2, THEN conjunct2, THEN conjunct2, THEN conjunct1,
        THEN mp, OF rg, THEN conjunct2, THEN conjunct1, THEN mp, OF h7] .
  have rf: "openmeteo_forecast (net_openmeteo g w) la lo = Response True (Some w)" for g w la lo
    by (simp add: net_openmeteo_def)
  have p8: "fetchFromOpenMeteo ascii_engine (net_openmeteo geocoding_paris forecast_paris)
              (js ''Paris'')
     = Inr \<lparr> name = js ''Paris, France'',
             main = \<lparr> temp = Fin 72, humidity = Number (Fin 65) \<rparr>,
             weather = [\<lparr> description = Text (js ''slight rain''), icon = js ''10d'' \<rparr>] \<rparr>"
    using T [where rt = ascii_engine and city = "js ''Paris''"
        and nw = "net_openmeteo geocoding_paris forecast_paris" and w = forecast_paris,
        THEN conjunct2, THEN conjunct2, THEN conjunct1, THEN mp, OF geocoded_paris,
        THEN conjunct2, THEN mp, OF rf, THEN conjunct2, THEN mp,
        OF conjI [OF reads_forecast_paris(1) conjI [OF reads_forecast_paris(2)
          conjI [OF reads_forecast_paris(3) conjI [OF reads_forecast_paris(4)
            reads_forecast_paris(5)]]]]]
    by (simp add: floor_eq_iff js_append [symmetric])
  have rw: "wttr_j1 (net_wttr b) (js ''Paris'') = Response True (Some b)" for b
    by (simp add: net_wttr_def)
  have p9: "fetchFromWttr ascii_engine (net_wttr wttr_no_description) (js ''Paris'') = Inl TypeError"
    using reads_wttr_no_description
      T [where rt = ascii_engine and city = "js ''Paris''" and q = "js ''Paris''"
        and nw = "net_wttr wttr_no_description" and dc = wttr_no_description,
        THEN conjunct2, THEN conjunct1, THEN mp, OF enc,
        THEN conjunct2, THEN conjunct2, THEN conjunct2, THEN conjunct2, THEN conjunct2,
        THEN mp, OF rw, THEN conjunct1]
    by (simp only: simp_thms)
  have p10: "fetchFromWttr ascii_engine (net_wttr (wttr_paris ''N/A'' ''55'')) (js ''Paris'')
      = Inr \<lparr> name = js ''Paris, France'',
              main = \<lparr> temp = NaN, humidity = Number (Fin 55) \<rparr>,
              weather = [\<lparr> description = Text (js ''sunny''), icon = js ''01d'' \<rparr>] \<rparr>"
    using T [where rt = ascii_engine and city = "js ''Paris''" and q = "js ''Paris''"
        and nw = "net_wttr (wttr_paris ''N/A'' ''55'')" and dc = "wttr_paris ''N/A'' ''55''",
        THEN conjunct2, THEN conjunct1, THEN mp, OF enc,
        THEN conjunct2, THEN conjunct2, THEN conjunct2, THEN conjunct2, THEN conjunct2,
        THEN mp, OF rw, THEN conjunct2, THEN mp,
        OF conjI [OF reads_wttr_paris(1) conjI [OF reads_wttr_paris(2)
          conjI [OF reads_wttr_paris(3) conjI [OF reads_wttr_paris(4) reads_wttr_paris(5)]]]]]
    by (simp add: ascii_engine_sel toLowerCase_Sunny icon_sunny parseInt_NA parseInt_55
        js_append [symmetric])
  have pn: "parseInt ascii_engine (js ''N/A'') = NaN"
    by (simp add: ascii_engine_sel parseInt_NA)
  show ?thesis
    using encode_lone_surrogate p1 enc u p2 p3 p4 reads_weatherapi_no_current p5 p6 p7 p8
      reads_wttr_no_description p9 pn p10
    by (simp only: simp_thms)
qed

section \<open>Frame of the cache\<close>

text \<open>
  C10. A call of \<open>fetchWeatherData\<close> changes at most the cache entry under the key
  of its own query, \<open>city.toLowerCase().trim()\<close> as the engine computes it: under every
  other key the cache after the call is the cache before it, whether the call hit the
  cache, stored a winner's report, rejected, or never settled.
\<close>

theorem other_keys_untouched:
  "k \<noteq> cacheKey (js_engine e) city \<Longrightarrow> cache_after (fetchWeatherData e c city) k = c k"
  by (simp add: fetchWeatherData_def Let_def split: option.splits sum.splits)

theorem other_keys_untouched_witness:
  "js ''london'' \<noteq> cacheKey ascii_engine (js ''Paris'') \<and>
   cache_after (fetchWeatherData \<lparr> js_engine = ascii_engine, net = net_wttr_only ''72'' ''55'',
                                   settle_order = [WeatherAPI, Wttr, OpenMeteo],
                                   now_at_check = 10, now_at_store = 25 \<rparr>
                  [js ''london'' \<mapsto> \<lparr> data = paris_report, timestamp = 3 \<rparr>] (js ''Paris''))
     (js ''london'')
     = Some \<lparr> data = paris_report, timestamp = 3 \<rparr>"
proof -
  let ?e = "\<lparr> js_engine = ascii_engine, net = net_wttr_only ''72'' ''55'',
              settle_order = [WeatherAPI, Wttr, OpenMeteo],
              now_at_check = 10, now_at_store = 25 \<rparr>"
  have h: "js ''london'' \<noteq> cacheKey (js_engine ?e) (js ''Paris'')"
    by (simp add: cacheKey_Paris [OF ecma_ascii_engine])
  show ?thesis
    using other_keys_untouched
      [of "js ''london''" ?e "js ''Paris''"
        "[js ''london'' \<mapsto> \<lparr> data = paris_report, timestamp = 3 \<rparr>]", OF h] h
    by simp
qed

end
